theory Spec2Isabelle
  imports Complex_Main "HOL-Library.Char_ord" "HOL-Library.List_Lexorder"
    "HOL-Library.Product_Lexorder"
begin

section \<open>Tables\<close>

text \<open>
  A pandas DataFrame as the application uses it: named columns and rows of cells. A cell
  is a number, a text, or the missing marker. Numbers are exact rationals; the thresholds
  and constants of the source (50, 20, 5, 0.5, 0.3, 0.1, 0.05, 1.5) are all decimal
  fractions. Rows and columns are aligned and column names are unique (\<open>wf_df\<close>).
\<close>

datatype cell = Num rat | Txt string | NaN

record dataframe =
  columns :: "string list"
  rows :: "cell list list"

definition wf_df :: "dataframe \<Rightarrow> bool" where
  "wf_df df = (distinct (columns df) \<and> list_all (\<lambda>r. length r = length (columns df)) (rows df))"

text \<open>\<open>len(df)\<close>, \<open>df.size\<close> and \<open>df.empty\<close>.\<close>

definition df_len :: "dataframe \<Rightarrow> nat" where
  "df_len df = length (rows df)"

definition df_size :: "dataframe \<Rightarrow> nat" where
  "df_size df = length (rows df) * length (columns df)"

definition df_empty :: "dataframe \<Rightarrow> bool" where
  "df_empty df = (rows df = [] \<or> columns df = [])"

text \<open>\<open>df[col]\<close>: the cells of the column named \<open>col\<close>, by its position in \<open>df.columns\<close>.\<close>

definition col_pos :: "string list \<Rightarrow> string \<Rightarrow> nat" where
  "col_pos cs col = length (takeWhile (\<lambda>c. c \<noteq> col) cs)"

definition series :: "dataframe \<Rightarrow> string \<Rightarrow> cell list" where
  "series df col = map (\<lambda>r. r ! col_pos (columns df) col) (rows df)"

definition is_txt :: "cell \<Rightarrow> bool" where
  "is_txt c = (case c of Txt s \<Rightarrow> True | _ \<Rightarrow> False)"

text \<open>
  \<open>pd.api.types.is_numeric_dtype\<close>: a column read from a sheet has a numeric dtype when
  it holds no text cell, and the dtype \<open>object\<close> otherwise.
\<close>

definition is_numeric_dtype :: "cell list \<Rightarrow> bool" where
  "is_numeric_dtype s = list_all (\<lambda>c. \<not> is_txt c) s"

text \<open>\<open>s.isnull().sum()\<close> and \<open>s.dropna()\<close> (as numbers for a numeric column).\<close>

definition isnull_sum :: "cell list \<Rightarrow> nat" where
  "isnull_sum s = length (filter (\<lambda>c. c = NaN) s)"

definition dropna :: "cell list \<Rightarrow> cell list" where
  "dropna s = filter (\<lambda>c. c \<noteq> NaN) s"

fun nums :: "cell list \<Rightarrow> rat list" where
  "nums [] = []"
| "nums (Num x # cs) = x # nums cs"
| "nums (c # cs) = nums cs"

text \<open>
  \<open>Series.quantile(q)\<close> with the default linear interpolation, on a non-empty list:
  the position \<open>q * (n - 1)\<close> in the sorted values, interpolated between its neighbours.
\<close>

definition quantile :: "rat list \<Rightarrow> rat \<Rightarrow> rat" where
  "quantile xs q =
     (let s = sort xs; h = q * of_nat (length s - 1); lo = nat \<lfloor>h\<rfloor>;
          hi = min (lo + 1) (length s - 1)
      in s ! lo + (h - of_nat lo) * (s ! hi - s ! lo))"

section \<open>Quality assessment (ai_assistant_dialog.py)\<close>

datatype severity = Low | Medium | High | Critical

datatype issue_type = Outliers | HighMissing | MediumMissing | LowMissing

text \<open>
  An issue dictionary: its \<open>type\<close>, its \<open>severity\<close>, and the \<open>count\<close> (outliers) or
  \<open>percentage\<close> (missing values) it reports.
\<close>

record issue =
  itype :: issue_type
  severity :: severity
  amount :: rat

record column_analysis =
  data_type_numeric :: bool
  null_count :: nat
  issues :: "issue list"

definition outlier_count :: "rat list \<Rightarrow> nat" where
  "outlier_count valid_data =
     (let q1 = quantile valid_data (1 / 4); q3 = quantile valid_data (3 / 4); iqr = q3 - q1
      in length (filter (\<lambda>x. x < q1 - (3 / 2) * iqr \<or> q3 + (3 / 2) * iqr < x) valid_data))"

text \<open>The issues of the numeric branch of \<open>_analyze_column\<close>: at most one, for outliers.\<close>

definition outlier_issues :: "cell list \<Rightarrow> issue list" where
  "outlier_issues s =
     (if is_numeric_dtype s then
        (let valid_data = nums s in
         if length valid_data > 0 then
           (let n = outlier_count valid_data in
            if n > 0 then
              [\<lparr>itype = Outliers, severity = (if n \<le> 5 then Medium else High),
                amount = of_nat n\<rparr>]
            else [])
         else [])
      else [])"

text \<open>The \<open>if / elif / elif\<close> chain on the column's missing percentage.\<close>

definition missing_issues :: "rat \<Rightarrow> issue list" where
  "missing_issues null_pct =
     (if null_pct > 50 then
        [\<lparr>itype = HighMissing, severity = Critical, amount = null_pct\<rparr>]
      else if null_pct > 20 then
        [\<lparr>itype = MediumMissing, severity = Medium, amount = null_pct\<rparr>]
      else if null_pct > 0 then
        [\<lparr>itype = LowMissing, severity = Low, amount = null_pct\<rparr>]
      else [])"

text \<open>
  \<open>DataQualityAssessment._analyze_column\<close>. The issues are decided on the percentage
  before it is rounded. The entries \<open>null_percentage\<close> (the percentage rounded for
  display) and \<open>suggestions\<close> (mean, median, mode, standard deviation) of the result
  feed no issue and are left out.
\<close>

definition analyze_column :: "cell list \<Rightarrow> column_analysis" where
  "analyze_column s =
     (let total_count = length s;
          nulls = isnull_sum s;
          null_pct = (if total_count > 0 then (of_nat nulls / of_nat total_count) * 100 else 0)
      in \<lparr>data_type_numeric = is_numeric_dtype s,
          null_count = nulls,
          issues = outlier_issues s @ missing_issues null_pct\<rparr>)"

text \<open>
  \<open>DataQualityAssessment._calculate_quality_score\<close>; of the DataFrame it reads only
  \<open>len(df)\<close> and \<open>len(df.columns)\<close>.
\<close>

definition calculate_quality_score :: "rat \<Rightarrow> issue list \<Rightarrow> nat \<Rightarrow> nat \<Rightarrow> rat" where
  "calculate_quality_score nan_percentage iss n_rows n_cols =
     (let base0 = (1::rat);
          base1 = (if nan_percentage > 50 then base0 - 1 / 2
                   else if nan_percentage > 20 then base0 - 3 / 10
                   else if nan_percentage > 5 then base0 - 1 / 10
                   else base0);
          critical_issues = length (filter (\<lambda>i. severity i = Critical) iss);
          medium_issues = length (filter (\<lambda>i. severity i = Medium) iss);
          base2 = base1 - of_nat critical_issues * (1 / 5);
          base3 = base2 - of_nat medium_issues * (1 / 10);
          base4 = (if n_rows > 1000 then base3 + 1 / 20 else base3);
          base5 = (if n_cols > 5 then base4 + 1 / 20 else base4)
      in max 0 (min 1 base5))"

record quality_report =
  quality_score :: rat
  total_rows :: nat
  total_columns :: nat
  total_nan_cells :: nat
  overall_issues :: "issue list"

text \<open>\<open>df.isnull().sum().sum()\<close>.\<close>

definition total_nan :: "dataframe \<Rightarrow> nat" where
  "total_nan df = sum_list (map isnull_sum (rows df))"

text \<open>
  \<open>DataQualityAssessment.assess_data_quality\<close>, without the outlier samples, the
  recommendation texts and the percentage rounded for display, which the score does not
  read: the score is computed from the percentage before it is rounded.
\<close>

definition assess_data_quality :: "dataframe \<Rightarrow> quality_report" where
  "assess_data_quality df =
     (let total_cells = df_size df;
          total = total_nan df;
          nan_pct = (if total_cells > 0 then (of_nat total / of_nat total_cells) * 100 else 0);
          all_issues = concat (map (\<lambda>col. issues (analyze_column (series df col))) (columns df))
      in \<lparr>quality_score = calculate_quality_score nan_pct all_issues (df_len df) (length (columns df)),
          total_rows = df_len df,
          total_columns = length (columns df),
          total_nan_cells = total,
          overall_issues = all_issues\<rparr>)"

section \<open>NaN analysis (data_processor.py)\<close>

text \<open>
  The exceptions of exceptions.py that the core raises, the two Python exceptions that
  occur inside it, and \<open>DataProcessingError\<close>, which wraps the exception it was raised
  from (\<open>raise DataProcessingError(f"... failed: {e}")\<close>).
\<close>

datatype error =
    EmptyDataError
  | DataValidationError
  | ValueError
  | ZeroDivisionError
  | DataProcessingError error

text \<open>
  The order pandas sorts group keys and modes in: numbers by value, before texts, texts
  by code point.
\<close>

fun cell_key :: "cell \<Rightarrow> nat \<times> rat \<times> string" where
  "cell_key (Num x) = (0, x, [])"
| "cell_key (Txt s) = (1, 0, s)"
| "cell_key NaN = (2, 0, [])"

definition mean :: "rat list \<Rightarrow> rat" where
  "mean xs = sum_list xs / of_nat (length xs)"

definition median :: "rat list \<Rightarrow> rat" where
  "median xs =
     (let s = sort xs; n = length s
      in if odd n then s ! (n div 2) else (s ! (n div 2 - 1) + s ! (n div 2)) / 2)"

text \<open>
  \<open>s.mode()\<close>: the most frequent values. pandas collects them in the order of their
  first occurrence and then sorts them. Texts sort among texts and numbers among
  numbers; modes of both kinds cannot be compared, the sort fails, pandas warns and
  leaves them in the order of their first occurrence.
\<close>

definition modes :: "'a list \<Rightarrow> 'a list" where
  "modes xs =
     (let keys = rev (remdups (rev xs));
          top = fold max (map (count_list xs) keys) 0
      in filter (\<lambda>k. count_list xs k = top) keys)"

text \<open>\<open>valid_data.mode().iloc[0] if not valid_data.mode().empty else 0\<close>, on numbers.\<close>

definition numeric_mode :: "rat list \<Rightarrow> rat" where
  "numeric_mode xs = (case sort (modes xs) of [] \<Rightarrow> 0 | d # ds \<Rightarrow> d)"

text \<open>
  \<open>valid_data.mode().iloc[0] if not valid_data.mode().empty else "Unknown"\<close>, on the
  cells of a column of dtype \<open>object\<close> without its missing cells.
\<close>

definition categorical_mode :: "cell list \<Rightarrow> cell" where
  "categorical_mode xs =
     (case modes xs of
        [] \<Rightarrow> Txt ''Unknown''
      | m # ms \<Rightarrow>
          if list_all is_txt (m # ms) \<or> list_all (\<lambda>c. \<not> is_txt c) (m # ms)
          then hd (sort_key cell_key (m # ms))
          else m)"

fun list_max :: "rat list \<Rightarrow> rat" where
  "list_max [] = 0"
| "list_max [x] = x"
| "list_max (x # xs) = max x (list_max xs)"

fun list_min :: "rat list \<Rightarrow> rat" where
  "list_min [] = 0"
| "list_min [x] = x"
| "list_min (x # xs) = min x (list_min xs)"

text \<open>
  \<open>round(x, 2)\<close>. The program rounds the binary double it has computed, which is not
  the exact value: to which neighbour a value at or next to a decimal tie goes is decided
  by the double. The rounding is therefore taken as a parameter, one function for the
  percentages (\<open>round((count / total) * 100, 2)\<close>) and one for the statistics
  (\<open>round(s.mean(), 2)\<close>, \<open>round(s.median(), 2)\<close>); nothing is assumed of them.
\<close>

record py_round =
  round_pct :: "rat \<Rightarrow> rat"
  round_stat :: "rat \<Rightarrow> rat"

record suggestions =
  s_mean :: rat
  s_median :: rat
  s_mode :: rat
  s_min :: rat
  s_max :: rat

text \<open>
  An entry of \<open>nan_analysis["recommendations"]\<close>: of type numeric with its suggestions
  (the recommended one is always the median), or of type categorical with the mode, the
  number of distinct values and the recommended method.
\<close>

datatype recommendation =
    NumericRec suggestions
  | CategoricalRec cell nat string

record nan_info =
  nan_count :: nat
  percentage :: rat

record nan_analysis =
  na_total_rows :: nat
  na_total_cells :: nat
  columns_with_nan :: "(string \<times> nan_info) list"
  na_total_nan_cells :: nat
  na_nan_percentage :: rat
  recommendations :: "(string \<times> recommendation) list"

text \<open>The recommendation the loop body builds for a column with missing cells.\<close>

definition recommend :: "py_round \<Rightarrow> cell list \<Rightarrow> recommendation" where
  "recommend rd s =
     (if is_numeric_dtype s then
        (let valid_data = nums s in
         if length valid_data > 0 then
           NumericRec \<lparr>s_mean = round_stat rd (mean valid_data),
                       s_median = round_stat rd (median valid_data),
                       s_mode = numeric_mode valid_data,
                       s_min = list_min valid_data,
                       s_max = list_max valid_data\<rparr>
         else NumericRec \<lparr>s_mean = 0, s_median = 0, s_mode = 0, s_min = 0, s_max = 0\<rparr>)
      else
        (let valid_data = dropna s in
         if length valid_data > 0 then
           (let unique_count = length (remdups valid_data)
            in CategoricalRec (categorical_mode valid_data) unique_count
                 (if unique_count < 20 then ''mode'' else ''unknown''))
         else CategoricalRec (Txt ''Unknown'') 0 ''mode''))"

definition column_nan_info :: "py_round \<Rightarrow> dataframe \<Rightarrow> cell list \<Rightarrow> nan_info" where
  "column_nan_info rd df s =
     \<lparr>nan_count = isnull_sum s,
      percentage = round_pct rd ((of_nat (isnull_sum s) / of_nat (df_len df)) * 100)\<rparr>"

text \<open>
  The body of the \<open>try\<close> block of \<open>analyze_nan_values\<close>. The loop records the columns
  with \<open>nan_count > 0\<close>; the final percentage divides by \<open>df.size\<close>, which raises
  \<open>ZeroDivisionError\<close> on a table without cells.
\<close>

definition analyze_nan_values_try :: "py_round \<Rightarrow> dataframe \<Rightarrow> error + nan_analysis" where
  "analyze_nan_values_try rd df =
     (let with_nan = filter (\<lambda>col. isnull_sum (series df col) > 0) (columns df);
          total = sum_list (map (\<lambda>col. isnull_sum (series df col)) with_nan)
      in if df_size df = 0 then Inl ZeroDivisionError
         else Inr \<lparr>na_total_rows = df_len df,
                   na_total_cells = df_size df,
                   columns_with_nan = map (\<lambda>col. (col, column_nan_info rd df (series df col))) with_nan,
                   na_total_nan_cells = total,
                   na_nan_percentage = round_pct rd ((of_nat total / of_nat (df_size df)) * 100),
                   recommendations = map (\<lambda>col. (col, recommend rd (series df col))) with_nan\<rparr>)"

text \<open>
  \<open>FlexibleDataProcessor.analyze_nan_values\<close>: \<open>except Exception\<close> logs the error and
  returns the empty dictionary \<open>{}\<close>, here \<open>None\<close>.
\<close>

definition analyze_nan_values :: "py_round \<Rightarrow> dataframe \<Rightarrow> nan_analysis option" where
  "analyze_nan_values rd df =
     (case analyze_nan_values_try rd df of Inl e \<Rightarrow> None | Inr a \<Rightarrow> Some a)"

section \<open>Strategies and cleaning (data_processor.py)\<close>

text \<open>
  A strategy entry \<open>{"method": ..., "value": ...}\<close>; either key may be absent. The
  method is kept as the string the dictionary holds.
\<close>

record strategy_entry =
  meth :: "string option"
  fill_value :: "cell option"

text \<open>\<open>nan_analysis.get("columns_with_nan", {})\<close> and \<open>nan_analysis.get("recommendations", {})\<close>.\<close>

definition get_columns_with_nan :: "nan_analysis option \<Rightarrow> (string \<times> nan_info) list" where
  "get_columns_with_nan a = (case a of None \<Rightarrow> [] | Some x \<Rightarrow> columns_with_nan x)"

definition get_recommendations :: "nan_analysis option \<Rightarrow> (string \<times> recommendation) list" where
  "get_recommendations a = (case a of None \<Rightarrow> [] | Some x \<Rightarrow> recommendations x)"

text \<open>The entry \<open>_get_default_nan_strategy\<close> assigns to one column.\<close>

definition default_entry :: "nan_analysis option \<Rightarrow> string \<Rightarrow> strategy_entry" where
  "default_entry a col =
     (case map_of (get_columns_with_nan a) col of
        Some info \<Rightarrow>
          (let rec = map_of (get_recommendations a) col; pct = percentage info in
           if pct > 50 then \<lparr>meth = Some ''fill'', fill_value = Some (Txt ''N/A'')\<rparr>
           else if pct > 20 then
             (case rec of
                Some (NumericRec sg) \<Rightarrow> \<lparr>meth = Some ''fill'', fill_value = Some (Num (s_median sg))\<rparr>
              | _ \<Rightarrow> \<lparr>meth = Some ''fill'', fill_value = Some (Txt ''Unknown'')\<rparr>)
           else
             (case rec of
                Some (NumericRec sg) \<Rightarrow> \<lparr>meth = Some ''fill'', fill_value = Some (Num (s_median sg))\<rparr>
              | Some (CategoricalRec m u r) \<Rightarrow> \<lparr>meth = Some ''fill'', fill_value = Some m\<rparr>
              | None \<Rightarrow> \<lparr>meth = Some ''fill'', fill_value = Some (Txt ''Unknown'')\<rparr>))
      | None \<Rightarrow> \<lparr>meth = Some ''keep'', fill_value = None\<rparr>)"

text \<open>\<open>FlexibleDataProcessor._get_default_nan_strategy\<close>: one entry per column of the table.\<close>

definition get_default_nan_strategy ::
    "dataframe \<Rightarrow> nan_analysis option \<Rightarrow> (string \<times> strategy_entry) list" where
  "get_default_nan_strategy df a = map (\<lambda>col. (col, default_entry a col)) (columns df)"

text \<open>\<open>df[col].fillna(v)\<close> and \<open>df.dropna(subset=[col])\<close> on the rows of the table.\<close>

definition fillna :: "cell list \<Rightarrow> cell \<Rightarrow> cell list" where
  "fillna s v = map (\<lambda>c. if c = NaN then v else c) s"

definition fillna_col :: "dataframe \<Rightarrow> string \<Rightarrow> cell \<Rightarrow> dataframe" where
  "fillna_col df col v =
     df\<lparr>rows := map (\<lambda>r. let i = col_pos (columns df) col in
                             if r ! i = NaN then r[i := v] else r) (rows df)\<rparr>"

definition dropna_subset :: "dataframe \<Rightarrow> string \<Rightarrow> dataframe" where
  "dropna_subset df col =
     df\<lparr>rows := filter (\<lambda>r. r ! col_pos (columns df) col \<noteq> NaN) (rows df)\<rparr>"

text \<open>\<open>df.drop_duplicates()\<close>: of equal rows the first is kept.\<close>

definition drop_duplicates :: "dataframe \<Rightarrow> dataframe" where
  "drop_duplicates df = df\<lparr>rows := rev (remdups (rev (rows df)))\<rparr>"

text \<open>
  The value a \<open>fill\<close> entry without a value falls back to: the recommended statistic of
  the analysis, else 0 or \<open>Unknown\<close> by the column's dtype.
\<close>

definition suggested_fill :: "nan_analysis option \<Rightarrow> dataframe \<Rightarrow> string \<Rightarrow> cell" where
  "suggested_fill a df col =
     (case map_of (get_recommendations a) col of
        Some (NumericRec sg) \<Rightarrow> Num (s_median sg)
      | Some (CategoricalRec m u r) \<Rightarrow> m
      | None \<Rightarrow> (if is_numeric_dtype (series df col) then Num 0 else Txt ''Unknown''))"

text \<open>
  One pass of the loop over \<open>df_cleaned.columns\<close>. A column without an entry is left
  alone; the method defaults to \<open>fill\<close>; the \<open>if / elif / elif\<close> chain has no \<open>else\<close>.
\<close>

definition apply_column_strategy ::
    "nan_analysis option \<Rightarrow> (string \<rightharpoonup> strategy_entry) \<Rightarrow> string \<Rightarrow> dataframe \<Rightarrow> dataframe" where
  "apply_column_strategy a nan_strategy col df =
     (case nan_strategy col of
        None \<Rightarrow> df
      | Some strategy \<Rightarrow>
          (let m = (case meth strategy of None \<Rightarrow> ''fill'' | Some x \<Rightarrow> x) in
           if m = ''fill'' then
             fillna_col df col
               (case fill_value strategy of None \<Rightarrow> suggested_fill a df col | Some v \<Rightarrow> v)
           else if m = ''drop'' then dropna_subset df col
           else if m = ''keep'' then df
           else df))"

definition validate_dataframe :: "dataframe \<Rightarrow> error + unit" where
  "validate_dataframe df = (if df_empty df then Inl EmptyDataError else Inr ())"

text \<open>
  \<open>FlexibleDataProcessor.clean_data_with_strategy\<close>. \<open>nan_strategy = None\<close> selects the
  default strategy; every exception leaves as a \<open>DataProcessingError\<close>.
\<close>

definition clean_data_with_strategy ::
    "py_round \<Rightarrow> dataframe \<Rightarrow> (string \<rightharpoonup> strategy_entry) option
     \<Rightarrow> error + dataframe" where
  "clean_data_with_strategy rd df nan_strategy =
     (case validate_dataframe df of
        Inl e \<Rightarrow> Inl (DataProcessingError e)
      | Inr u \<Rightarrow>
          (let a = analyze_nan_values rd df;
               strategy = (case nan_strategy of
                             None \<Rightarrow> map_of (get_default_nan_strategy df a)
                           | Some s \<Rightarrow> s);
               df_cleaned = fold (apply_column_strategy a strategy) (columns df) df
           in Inr (drop_duplicates df_cleaned)))"

section \<open>Aggregation (data_processor.py)\<close>

text \<open>
  \<open>pd.to_numeric(s, errors='coerce')\<close>: a number stays, a text becomes its parsed value
  or the missing marker. The parser of pandas is taken as the parameter \<open>str_to_num\<close>.
\<close>

definition to_numeric :: "(string \<Rightarrow> rat option) \<Rightarrow> cell list \<Rightarrow> cell list" where
  "to_numeric str_to_num s =
     map (\<lambda>c. case c of
                 Txt t \<Rightarrow> (case str_to_num t of None \<Rightarrow> NaN | Some x \<Rightarrow> Num x)
               | _ \<Rightarrow> c) s"

text \<open>
  \<open>df.groupby(x_col)[y_col]\<close>: one group per distinct key, the keys sorted, rows with a
  missing key left out, each group holding its measure cells in row order.
\<close>

definition groupby :: "(cell \<times> cell) list \<Rightarrow> (cell \<times> cell list) list" where
  "groupby pairs =
     map (\<lambda>k. (k, map snd (filter (\<lambda>p. fst p = k) pairs)))
       (sort_key cell_key (remdups (filter (\<lambda>k. k \<noteq> NaN) (map fst pairs))))"

text \<open>
  The group-wise reductions of pandas; all skip missing cells. The sum of no values is
  0, the mean, maximum and minimum of no values are missing (\<open>None\<close>). An operation
  outside the five names falls to the \<open>else\<close> branch, a sum.
\<close>

definition aggregate :: "string \<Rightarrow> cell list \<Rightarrow> rat option" where
  "aggregate operation vs =
     (let xs = nums vs in
      if operation = ''sum'' then Some (sum_list xs)
      else if operation = ''mean'' then (if xs = [] then None else Some (mean xs))
      else if operation = ''count'' then Some (of_nat (length xs))
      else if operation = ''max'' then (if xs = [] then None else Some (list_max xs))
      else if operation = ''min'' then (if xs = [] then None else Some (list_min xs))
      else Some (sum_list xs))"

text \<open>
  \<open>result.sort_values(y_col, ascending=False)\<close>. The call names no \<open>kind\<close>, so pandas
  sorts with its default quicksort, which is not stable: where rows with equal values
  end up is the library's matter and differs between its versions. The sort is therefore
  a parameter of the model, and \<open>sort_values_contract\<close> says what is known of it: it
  rearranges the rows, the values descend, and rows with a missing value come last
  (\<open>na_position='last'\<close>).
\<close>

definition ordered_desc :: "rat option \<Rightarrow> rat option \<Rightarrow> bool" where
  "ordered_desc v w =
     (case w of None \<Rightarrow> True | Some b \<Rightarrow> (case v of None \<Rightarrow> False | Some a \<Rightarrow> b \<le> a))"

definition sort_values_contract ::
    "((cell \<times> rat option) list \<Rightarrow> (cell \<times> rat option) list) \<Rightarrow> bool" where
  "sort_values_contract sort_values =
     (\<forall>rs. set (sort_values rs) = set rs \<and> length (sort_values rs) = length rs
           \<and> sorted_wrt (\<lambda>g h. ordered_desc (snd g) (snd h)) (sort_values rs))"

definition validate_column_selection :: "dataframe \<Rightarrow> string \<Rightarrow> string \<Rightarrow> error + unit" where
  "validate_column_selection df x_col y_col =
     (if x_col \<notin> set (columns df) then Inl DataValidationError
      else if y_col \<notin> set (columns df) then Inl DataValidationError
      else Inr ())"

text \<open>The measure column after the two NaN-handling steps that precede the grouping.\<close>

definition prepare_measure :: "(string \<Rightarrow> rat option) \<Rightarrow> string \<Rightarrow> cell list \<Rightarrow> cell list" where
  "prepare_measure str_to_num operation ys =
     (let ys1 =
        (if isnull_sum ys > 0 then
           (let coerced = (if \<not> is_numeric_dtype ys then to_numeric str_to_num ys else ys) in
            if operation = ''sum'' \<or> operation = ''count'' then fillna coerced (Num 0)
            else coerced)
         else ys)
      in if \<not> is_numeric_dtype ys1 then fillna (to_numeric str_to_num ys1) (Num 0) else ys1)"

definition prepare_category :: "cell list \<Rightarrow> cell list" where
  "prepare_category xs = (if isnull_sum xs > 0 then fillna xs (Txt ''Unknown'') else xs)"

text \<open>
  The table \<open>df_analysis.groupby(x_col)[y_col].sum().reset_index()\<close> (or \<open>mean\<close>,
  \<open>count\<close>, \<open>max\<close>, \<open>min\<close>), before it is sorted: one row per group, in the order of
  the groups.
\<close>

definition grouped_values ::
    "(string \<Rightarrow> rat option) \<Rightarrow> dataframe \<Rightarrow> string \<Rightarrow> string \<Rightarrow> string
     \<Rightarrow> (cell \<times> rat option) list" where
  "grouped_values str_to_num df x_col y_col operation =
     (let xs = prepare_category (series df x_col);
          ys = prepare_measure str_to_num operation (series df y_col)
      in map (\<lambda>g. (fst g, aggregate operation (snd g))) (groupby (zip xs ys)))"

text \<open>
  \<open>FlexibleDataProcessor.analyze_data_flexible\<close>. With one column chosen twice,
  \<open>reset_index\<close> cannot insert the key column beside the value column of the same name and
  raises \<open>ValueError\<close>. Every exception leaves as a \<open>DataProcessingError\<close>, also the
  \<open>EmptyDataError\<close> raised inside the \<open>try\<close> block.
\<close>

definition analyze_data_flexible ::
    "(string \<Rightarrow> rat option) \<Rightarrow> ((cell \<times> rat option) list \<Rightarrow> (cell \<times> rat option) list)
     \<Rightarrow> dataframe \<Rightarrow> string \<Rightarrow> string \<Rightarrow> string
     \<Rightarrow> error + (cell \<times> rat option) list" where
  "analyze_data_flexible str_to_num sort_values df x_col y_col operation =
     (case validate_column_selection df x_col y_col of
        Inl e \<Rightarrow> Inl (DataProcessingError e)
      | Inr u \<Rightarrow>
          if x_col = y_col then Inl (DataProcessingError ValueError)
          else
            (let result = sort_values (grouped_values str_to_num df x_col y_col operation)
             in if result = [] then Inl (DataProcessingError EmptyDataError)
                else Inr result))"

section \<open>The strategy panel (gui_components.py)\<close>

text \<open>
  The state of one column's widgets: the selected method, the selected fill method and
  the text of the custom entry.
\<close>

record widget =
  strategy_var :: string
  fill_var :: string
  custom_var :: string

definition is_numeric_rec :: "recommendation option \<Rightarrow> bool" where
  "is_numeric_rec r = (case r of Some (NumericRec sg) \<Rightarrow> True | _ \<Rightarrow> False)"

definition rec_suggestions :: "recommendation option \<Rightarrow> suggestions" where
  "rec_suggestions r =
     (case r of Some (NumericRec sg) \<Rightarrow> sg
      | _ \<Rightarrow> \<lparr>s_mean = 0, s_median = 0, s_mode = 0, s_min = 0, s_max = 0\<rparr>)"

definition rec_mode :: "recommendation option \<Rightarrow> cell" where
  "rec_mode r = (case r of Some (CategoricalRec m u x) \<Rightarrow> m | _ \<Rightarrow> Txt ''Unknown'')"

text \<open>
  The value of a \<open>fill\<close> entry. Python's \<open>float\<close> is the parameter \<open>py_float\<close>; \<open>None\<close>
  is its \<open>ValueError\<close>.
\<close>

definition fill_value_of ::
    "(string \<Rightarrow> cell option) \<Rightarrow> recommendation option \<Rightarrow> widget \<Rightarrow> cell" where
  "fill_value_of py_float r w =
     (let fill_method = fill_var w in
      if fill_method = ''median'' \<and> is_numeric_rec r then Num (s_median (rec_suggestions r))
      else if fill_method = ''mean'' \<and> is_numeric_rec r then Num (s_mean (rec_suggestions r))
      else if fill_method = ''mode'' then
        (if is_numeric_rec r then Num (s_mode (rec_suggestions r)) else rec_mode r)
      else if fill_method = ''zero'' then Num 0
      else if fill_method = ''unknown'' then Txt ''Unknown''
      else if fill_method = ''empty'' then Txt ''''
      else if fill_method = ''custom'' then
        (if is_numeric_rec r then
           (case py_float (custom_var w) of Some v \<Rightarrow> v | None \<Rightarrow> Num 0)
         else Txt (custom_var w))
      else Txt ''Unknown'')"

text \<open>
  \<open>get_nan_strategy\<close>: the loop over the columns of the panel; a method other than
  \<open>auto\<close>, \<open>drop\<close> and \<open>fill\<close> adds no entry.
\<close>

definition strategy_of_widget ::
    "(string \<Rightarrow> cell option) \<Rightarrow> nan_analysis option \<Rightarrow> string \<Rightarrow> widget
     \<Rightarrow> strategy_entry option" where
  "strategy_of_widget py_float a col w =
     (let m = strategy_var w in
      if m = ''auto'' then Some \<lparr>meth = Some ''auto'', fill_value = None\<rparr>
      else if m = ''drop'' then Some \<lparr>meth = Some ''drop'', fill_value = None\<rparr>
      else if m = ''fill'' then
        Some \<lparr>meth = Some ''fill'',
              fill_value = Some (fill_value_of py_float (map_of (get_recommendations a) col) w)\<rparr>
      else None)"

definition get_nan_strategy ::
    "(string \<Rightarrow> cell option) \<Rightarrow> nan_analysis option \<Rightarrow> (string \<times> widget) list
     \<Rightarrow> (string \<rightharpoonup> strategy_entry)" where
  "get_nan_strategy py_float a strategy_vars =
     fold (\<lambda>cw strategy.
             case strategy_of_widget py_float a (fst cw) (snd cw) of
               None \<Rightarrow> strategy
             | Some e \<Rightarrow> strategy(fst cw \<mapsto> e))
       strategy_vars Map.empty"

section \<open>Example tables\<close>

text \<open>
  1500 rows and six numeric columns without a missing cell. In \<open>two_outlier_df\<close> the
  columns \<open>a\<close> and \<open>b\<close> hold one value far from the rest, in \<open>one_outlier_df\<close> only
  the column \<open>a\<close> does.
\<close>

definition two_outlier_df :: dataframe where
  "two_outlier_df =
     \<lparr>columns = [''a'', ''b'', ''c'', ''d'', ''e'', ''f''],
      rows = replicate 1499 [Num 0, Num 0, Num 0, Num 0, Num 0, Num 0]
             @ [[Num 100, Num 100, Num 0, Num 0, Num 0, Num 0]]\<rparr>"

definition one_outlier_df :: dataframe where
  "one_outlier_df =
     \<lparr>columns = [''a'', ''b'', ''c'', ''d'', ''e'', ''f''],
      rows = replicate 1499 [Num 0, Num 0, Num 0, Num 0, Num 0, Num 0]
             @ [[Num 100, Num 0, Num 0, Num 0, Num 0, Num 0]]\<rparr>"

text \<open>The exact missing percentage of a column, as \<open>_analyze_column\<close> computes it.\<close>

definition missing_pct :: "cell list \<Rightarrow> rat" where
  "missing_pct s =
     (if length s = 0 then 0 else (of_nat (isnull_sum s) / of_nat (length s)) * 100)"

text \<open>A table with a column and no row, and two small tables of regions and sales.\<close>

definition empty_df :: dataframe where
  "empty_df = \<lparr>columns = [''Region''], rows = []\<rparr>"

definition nan_df :: dataframe where
  "nan_df =
     \<lparr>columns = [''Region'', ''Sales''],
      rows = [[Txt ''North'', Num 10], [NaN, Num 20], [Txt ''South'', NaN]]\<rparr>"

definition dup_df :: dataframe where
  "dup_df =
     \<lparr>columns = [''Region'', ''Sales''],
      rows = [[Txt ''North'', Num 10], [Txt ''South'', Num 20], [Txt ''North'', Num 10]]\<rparr>"

text \<open>
  A small stand-in for the parser behind \<open>pd.to_numeric\<close> in the examples: it reads an
  unsigned decimal integer and rejects every other text.
\<close>

fun parse_digits :: "nat \<Rightarrow> string \<Rightarrow> nat option" where
  "parse_digits acc [] = Some acc"
| "parse_digits acc (c # cs) =
     (if CHR ''0'' \<le> c \<and> c \<le> CHR ''9''
      then parse_digits (acc * 10 + (of_char c - 48)) cs
      else None)"

definition parse_decimal :: "string \<Rightarrow> rat option" where
  "parse_decimal s = (if s = [] then None else map_option of_nat (parse_digits 0 s))"

text \<open>
  A stand-in for \<open>round(x, 2)\<close> in the examples: the exact value rounded to two
  decimals, a tie going to the even neighbour. It is what Python returns wherever the
  double is not at or next to a decimal tie, as in the examples below.
\<close>

definition round_half_even :: "rat \<Rightarrow> rat" where
  "round_half_even x =
     (let y = x * 100; f = \<lfloor>y\<rfloor>; d = y - of_int f
      in of_int (if d < 1 / 2 then f else if 1 / 2 < d then f + 1
                 else if even f then f else f + 1) / 100)"

definition decimal_round :: py_round where
  "decimal_round = \<lparr>round_pct = round_half_even, round_stat = round_half_even\<rparr>"

text \<open>
  A stand-in for \<open>sort_values\<close> in the examples, and the sort the specification words:
  a stable sort by value, largest first, rows with a missing value last.
\<close>

definition stable_sort_desc :: "(cell \<times> rat option) list \<Rightarrow> (cell \<times> rat option) list" where
  "stable_sort_desc rs =
     sort_key (\<lambda>r. - the (snd r)) (filter (\<lambda>r. snd r \<noteq> None) rs)
     @ filter (\<lambda>r. snd r = None) rs"

text \<open>
  One category with the measure values 10, missing, 20; the same measure as texts with
  an unparseable cell in place of the missing one; and that text column with a missing
  cell added.
\<close>

definition scenario_df :: dataframe where
  "scenario_df =
     \<lparr>columns = [''Region'', ''Sales''],
      rows = [[Txt ''A'', Num 10], [Txt ''A'', NaN], [Txt ''A'', Num 20]]\<rparr>"

definition text_measure_df :: dataframe where
  "text_measure_df =
     \<lparr>columns = [''Region'', ''Sales''],
      rows = [[Txt ''A'', Txt ''10''], [Txt ''A'', Txt ''abc''], [Txt ''A'', Txt ''20'']]\<rparr>"

definition text_measure_nan_df :: dataframe where
  "text_measure_nan_df =
     \<lparr>columns = [''Region'', ''Sales''],
      rows = [[Txt ''A'', Txt ''10''], [Txt ''A'', Txt ''abc''], [Txt ''A'', Txt ''20''],
              [Txt ''A'', NaN]]\<rparr>"

text \<open>
  Two columns and no row; two categories with equal sums, \<open>b\<close> met first; and the same
  two rows with \<open>a\<close> met first.
\<close>

definition no_rows_df :: dataframe where
  "no_rows_df = \<lparr>columns = [''Region'', ''Sales''], rows = []\<rparr>"

definition tie_df :: dataframe where
  "tie_df =
     \<lparr>columns = [''Region'', ''Sales''],
      rows = [[Txt ''b'', Num 1], [Txt ''a'', Num 1]]\<rparr>"

definition rev_tie_df :: dataframe where
  "rev_tie_df =
     \<lparr>columns = [''Region'', ''Sales''],
      rows = [[Txt ''a'', Num 1], [Txt ''b'', Num 1]]\<rparr>"

text \<open>
  The order the specification words: groups in the order of their first occurrence in
  the table, then a stable sort by value, largest first.
\<close>

definition first_occurrence_groups :: "(cell \<times> cell) list \<Rightarrow> (cell \<times> cell list) list" where
  "first_occurrence_groups pairs =
     map (\<lambda>k. (k, map snd (filter (\<lambda>p. fst p = k) pairs)))
       (rev (remdups (rev (filter (\<lambda>k. k \<noteq> NaN) (map fst pairs)))))"

definition spec_sorted_result :: "string \<Rightarrow> (cell \<times> cell) list \<Rightarrow> (cell \<times> rat option) list" where
  "spec_sorted_result operation pairs =
     stable_sort_desc
       (map (\<lambda>g. (fst g, aggregate operation (snd g))) (first_occurrence_groups pairs))"

text \<open>
  Ten rows: the text column \<open>Region\<close> with three missing cells (30%) and the most frequent
  value \<open>A\<close>, the numeric column \<open>Sales\<close> with one missing cell (10%).
\<close>

definition region_df :: dataframe where
  "region_df =
     \<lparr>columns = [''Region'', ''Sales''],
      rows = [[Txt ''A'', Num 1], [Txt ''A'', Num 2], [Txt ''A'', Num 3], [Txt ''B'', Num 4],
              [Txt ''B'', Num 5], [Txt ''C'', Num 6], [Txt ''A'', NaN], [NaN, Num 8],
              [NaN, Num 9], [NaN, Num 10]]\<rparr>"

text \<open>
  Five rows of a column with texts and numbers: one missing cell (20%), and the two most
  frequent values \<open>x\<close> and 1, \<open>x\<close> met first.
\<close>

definition mixed_df :: dataframe where
  "mixed_df =
     \<lparr>columns = [''Code''],
      rows = [[Txt ''x''], [Num 1], [Txt ''x''], [Num 1], [NaN]]\<rparr>"

text \<open>
  The default entry as the specification words it: \<open>keep\<close> without missing cells,
  \<open>N/A\<close> above 50%, else the median of a numeric column and the mode of a categorical
  one, \<open>Unknown\<close> where there is no such statistic.
\<close>

definition spec_default_entry :: "cell list \<Rightarrow> strategy_entry" where
  "spec_default_entry s =
     (if isnull_sum s = 0 then \<lparr>meth = Some ''keep'', fill_value = None\<rparr>
      else if missing_pct s > 50 then \<lparr>meth = Some ''fill'', fill_value = Some (Txt ''N/A'')\<rparr>
      else if is_numeric_dtype s then
        \<lparr>meth = Some ''fill'',
         fill_value = Some (if nums s = [] then Txt ''Unknown'' else Num (median (nums s)))\<rparr>
      else
        \<lparr>meth = Some ''fill'',
         fill_value = Some (if dropna s = [] then Txt ''Unknown''
                            else categorical_mode (dropna s))\<rparr>)"

text \<open>
  A panel with one column set to \<open>fill\<close> with a custom text that is no number, and a
  stand-in for Python's \<open>float\<close> that reads unsigned decimal integers.
\<close>

definition custom_panel :: "(string \<times> widget) list" where
  "custom_panel =
     [(''Sales'', \<lparr>strategy_var = ''fill'', fill_var = ''custom'', custom_var = ''abc''\<rparr>)]"

definition float_of_digits :: "string \<Rightarrow> cell option" where
  "float_of_digits s = map_option Num (parse_decimal s)"


section \<open>Cells, rows and columns\<close>

lemma col_pos_less: "col \<in> set cs \<Longrightarrow> col_pos cs col < length cs"
  unfolding col_pos_def by (induction cs) auto

lemma total_nan_0_row: "total_nan df = 0 \<Longrightarrow> r \<in> set (rows df) \<Longrightarrow> NaN \<notin> set r"
  by (auto simp: total_nan_def isnull_sum_def filter_empty_conv)

lemma wf_row_length: "wf_df df \<Longrightarrow> r \<in> set (rows df) \<Longrightarrow> length r = length (columns df)"
  by (auto simp: wf_df_def list_all_iff)

lemma cell_not_nan:
  assumes "wf_df df" "total_nan df = 0" "col \<in> set (columns df)" "r \<in> set (rows df)"
  shows "r ! col_pos (columns df) col \<noteq> NaN"
proof -
  have "col_pos (columns df) col < length r"
    using col_pos_less [OF assms(3)] wf_row_length [OF assms(1) assms(4)] by simp
  then have "r ! col_pos (columns df) col \<in> set r" by simp
  then show ?thesis using total_nan_0_row [OF assms(2) assms(4)] by metis
qed

lemma series_no_nan:
  assumes "wf_df df" "total_nan df = 0" "col \<in> set (columns df)"
  shows "isnull_sum (series df col) = 0"
  using cell_not_nan [OF assms]
  by (auto simp: isnull_sum_def series_def filter_empty_conv)

lemma floor_rat_numeral_div: "\<lfloor>numeral a / numeral b :: rat\<rfloor> = numeral a div numeral b"
  using floor_divide_of_int_eq [of "numeral a" "numeral b", where ?'a = rat] by simp


section \<open>Missing-value issues of a column\<close>

lemma outlier_issues_type:
  "i \<in> set (outlier_issues s) \<Longrightarrow> itype i = Outliers \<and> (severity i = Medium \<or> severity i = High)"
  by (auto simp: outlier_issues_def Let_def split: if_splits)

lemma missing_issues_type: "i \<in> set (missing_issues p) \<Longrightarrow> itype i \<noteq> Outliers"
  by (auto simp: missing_issues_def split: if_splits)

lemma filter_outlier_issues: "filter (\<lambda>i. itype i \<noteq> Outliers) (outlier_issues s) = []"
  by (auto simp: filter_empty_conv dest: outlier_issues_type)

lemma filter_missing_issues:
  "filter (\<lambda>i. itype i \<noteq> Outliers) (missing_issues p) = missing_issues p"
  by (auto simp: filter_id_conv dest: missing_issues_type)

text \<open>
  C4. The issues of a column other than the outlier issue are decided by the column's
  missing percentage alone, first match first: above 50 exactly one issue, of type
  high_missing and severity critical; else above 20 exactly one, medium_missing and
  medium; else above 0 exactly one, low_missing and low; at 0 none.
\<close>

theorem missing_issue_classification:
  "map (\<lambda>i. (itype i, severity i))
     (filter (\<lambda>i. itype i \<noteq> Outliers) (issues (analyze_column s))) =
     (if missing_pct s > 50 then [(HighMissing, Critical)]
      else if missing_pct s > 20 then [(MediumMissing, Medium)]
      else if missing_pct s > 0 then [(LowMissing, Low)]
      else [])"
  by (simp add: analyze_column_def Let_def filter_outlier_issues filter_missing_issues
      missing_pct_def missing_issues_def)

theorem missing_issue_classification_witness:
  "map (\<lambda>i. (itype i, severity i))
     (filter (\<lambda>i. itype i \<noteq> Outliers)
        (issues (analyze_column [Num 1, NaN, NaN, Txt ''x'', NaN]))) = [(HighMissing, Critical)]
   \<and> map (\<lambda>i. (itype i, severity i))
     (filter (\<lambda>i. itype i \<noteq> Outliers)
        (issues (analyze_column [Num 1, NaN, Num 2, Num 3, Num 4]))) = [(LowMissing, Low)]
   \<and> map (\<lambda>i. (itype i, severity i))
     (filter (\<lambda>i. itype i \<noteq> Outliers)
        (issues (analyze_column [Num 1, Num 2]))) = []"
  using missing_issue_classification [of "[Num 1, NaN, NaN, Txt ''x'', NaN]"]
    missing_issue_classification [of "[Num 1, NaN, Num 2, Num 3, Num 4]"]
    missing_issue_classification [of "[Num 1, Num 2]"]
  by (simp add: missing_pct_def isnull_sum_def)

section \<open>The quality score\<close>

lemma issues_no_nan:
  assumes "wf_df df" "total_nan df = 0" "col \<in> set (columns df)"
  shows "issues (analyze_column (series df col)) = outlier_issues (series df col)"
  using series_no_nan [OF assms]
  by (simp add: analyze_column_def Let_def missing_issues_def)

lemma overall_issues_no_nan:
  assumes "wf_df df" "total_nan df = 0"
  shows "overall_issues (assess_data_quality df) =
    concat (map (\<lambda>col. outlier_issues (series df col)) (columns df))"
proof -
  have h: "map (\<lambda>col. issues (analyze_column (series df col))) (columns df)
      = map (\<lambda>col. outlier_issues (series df col)) (columns df)"
    by (rule map_cong [OF refl]) (rule issues_no_nan [OF assms])
  show ?thesis by (simp add: assess_data_quality_def Let_def h)
qed

lemma no_critical_no_nan:
  assumes "wf_df df" "total_nan df = 0"
  shows "filter (\<lambda>i. severity i = Critical) (overall_issues (assess_data_quality df)) = []"
  unfolding overall_issues_no_nan [OF assms]
  by (auto simp: filter_empty_conv dest: outlier_issues_type)

lemma score_unfold:
  "quality_score (assess_data_quality df) =
     calculate_quality_score
       (if df_size df > 0 then (of_nat (total_nan df) / of_nat (df_size df)) * 100 else 0)
       (overall_issues (assess_data_quality df)) (df_len df) (length (columns df))"
  by (simp add: assess_data_quality_def Let_def)

lemma score_no_nan:
  assumes "wf_df df" "total_nan df = 0"
  shows "quality_score (assess_data_quality df) =
     max 0 (min 1 (1 - of_nat (length (filter (\<lambda>i. severity i = Medium)
                                  (overall_issues (assess_data_quality df)))) / 10
        + (if df_len df > 1000 then 1 / 20 else 0)
        + (if length (columns df) > 5 then 1 / 20 else 0)))"
  unfolding score_unfold
  by (simp add: calculate_quality_score_def Let_def no_critical_no_nan [OF assms] assms(2))

lemma nums_map_Num: "nums (map Num xs) = xs"
  by (induction xs) auto

lemma numeric_map_Num: "is_numeric_dtype (map Num xs)"
  by (simp add: is_numeric_dtype_def list_all_iff is_txt_def)

lemma outlier_issues_Num:
  "outlier_issues (map Num xs) =
     (if outlier_count xs > 0
      then [\<lparr>itype = Outliers, severity = (if outlier_count xs \<le> 5 then Medium else High),
             amount = of_nat (outlier_count xs)\<rparr>]
      else [])"
  by (cases xs) (simp_all add: outlier_issues_def numeric_map_Num nums_map_Num Let_def
      outlier_count_def del: list.map)

lemma sort_spike: "0 \<le> x \<Longrightarrow> sort (replicate n (0::rat) @ [x]) = replicate n 0 @ [x]"
  by (rule sorted_sort_id) (simp add: sorted_append)

lemma outliers_spike: "outlier_count (replicate 1499 0 @ [100]) = 1"
  by (simp add: outlier_count_def quantile_def Let_def sort_spike nth_append floor_rat_numeral_div)

lemma outliers_flat: "outlier_count (replicate 1499 0 @ [0]) = 0"
  by (simp add: outlier_count_def quantile_def Let_def sort_spike nth_append floor_rat_numeral_div)

lemma spike_outlier_issues:
  "outlier_issues (map Num (replicate 1499 0 @ [100])) =
     [\<lparr>itype = Outliers, severity = Medium, amount = 1\<rparr>]"
  "outlier_issues (map Num (replicate 1499 0 @ [0])) = []"
  unfolding outlier_issues_Num outliers_spike outliers_flat
  by simp_all

lemma two_outlier_wf: "wf_df two_outlier_df"
  by (simp add: wf_df_def two_outlier_df_def list_all_iff)

lemma two_outlier_total_nan: "total_nan two_outlier_df = 0"
  by (simp add: total_nan_def two_outlier_df_def isnull_sum_def)

lemma two_outlier_series:
  "series two_outlier_df ''a'' = map Num (replicate 1499 0 @ [100])"
  "series two_outlier_df ''b'' = map Num (replicate 1499 0 @ [100])"
  "series two_outlier_df ''c'' = map Num (replicate 1499 0 @ [0])"
  "series two_outlier_df ''d'' = map Num (replicate 1499 0 @ [0])"
  "series two_outlier_df ''e'' = map Num (replicate 1499 0 @ [0])"
  "series two_outlier_df ''f'' = map Num (replicate 1499 0 @ [0])"
  by (simp_all add: series_def two_outlier_df_def col_pos_def)

lemma two_outlier_issues:
  "overall_issues (assess_data_quality two_outlier_df) =
     [\<lparr>itype = Outliers, severity = Medium, amount = 1\<rparr>,
      \<lparr>itype = Outliers, severity = Medium, amount = 1\<rparr>]"
proof -
  have c: "columns two_outlier_df = [''a'', ''b'', ''c'', ''d'', ''e'', ''f'']"
    by (simp add: two_outlier_df_def)
  show ?thesis
    unfolding overall_issues_no_nan [OF two_outlier_wf two_outlier_total_nan] c
    by (simp only: list.map concat.simps two_outlier_series spike_outlier_issues append.simps)
qed

lemma one_outlier_wf: "wf_df one_outlier_df"
  by (simp add: wf_df_def one_outlier_df_def list_all_iff)

lemma one_outlier_total_nan: "total_nan one_outlier_df = 0"
  by (simp add: total_nan_def one_outlier_df_def isnull_sum_def)

lemma one_outlier_series:
  "series one_outlier_df ''a'' = map Num (replicate 1499 0 @ [100])"
  "series one_outlier_df ''b'' = map Num (replicate 1499 0 @ [0])"
  "series one_outlier_df ''c'' = map Num (replicate 1499 0 @ [0])"
  "series one_outlier_df ''d'' = map Num (replicate 1499 0 @ [0])"
  "series one_outlier_df ''e'' = map Num (replicate 1499 0 @ [0])"
  "series one_outlier_df ''f'' = map Num (replicate 1499 0 @ [0])"
  by (simp_all add: series_def one_outlier_df_def col_pos_def)

lemma one_outlier_issues:
  "overall_issues (assess_data_quality one_outlier_df) =
     [\<lparr>itype = Outliers, severity = Medium, amount = 1\<rparr>]"
proof -
  have c: "columns one_outlier_df = [''a'', ''b'', ''c'', ''d'', ''e'', ''f'']"
    by (simp add: one_outlier_df_def)
  show ?thesis
    unfolding overall_issues_no_nan [OF one_outlier_wf one_outlier_total_nan] c
    by (simp only: list.map concat.simps one_outlier_series spike_outlier_issues append.simps)
qed

text \<open>
  C3, as stated, fails: a table of 1500 rows and six columns without a missing cell whose
  columns \<open>a\<close> and \<open>b\<close> each hold one outlier carries two medium-severity issues and
  scores 0.9, not 1.0.
\<close>

theorem quality_score_two_outliers_counterexample:
  "total_nan two_outlier_df = 0 \<and> df_len two_outlier_df = 1500
   \<and> length (columns two_outlier_df) = 6
   \<and> quality_score (assess_data_quality two_outlier_df) = 9 / 10"
proof -
  have "quality_score (assess_data_quality two_outlier_df) = 9 / 10"
    unfolding score_no_nan [OF two_outlier_wf two_outlier_total_nan] two_outlier_issues
    by (simp add: two_outlier_df_def df_len_def)
  then show ?thesis
    by (simp add: two_outlier_total_nan) (simp add: two_outlier_df_def df_len_def)
qed

text \<open>
  C3, amended. The score is 1.0, less 0.5, 0.3 or 0.1 for a missing percentage above 50,
  20 or 5, less 0.2 for each critical and 0.1 for each medium issue, plus 0.05 for more
  than 1000 rows and 0.05 for more than 5 columns, clamped to the interval from 0 to 1.
  A table without missing cells, with 1500 rows and 6 columns, scores exactly 1.0 when
  at most one of its issues is of medium severity.
\<close>

theorem quality_score_formula:
  "calculate_quality_score p iss r c =
     max 0 (min 1 (1
        - (if p > 50 then 1 / 2 else if p > 20 then 3 / 10 else if p > 5 then 1 / 10 else 0)
        - (1 / 5) * of_nat (length (filter (\<lambda>i. severity i = Critical) iss))
        - (1 / 10) * of_nat (length (filter (\<lambda>i. severity i = Medium) iss))
        + (if r > 1000 then 1 / 20 else 0) + (if c > 5 then 1 / 20 else 0)))
   \<and> (wf_df df \<and> total_nan df = 0 \<and> df_len df = 1500 \<and> length (columns df) = 6
        \<and> length (filter (\<lambda>i. severity i = Medium) (overall_issues (assess_data_quality df))) \<le> 1
      \<longrightarrow> quality_score (assess_data_quality df) = 1)"
proof (intro conjI impI)
  show "calculate_quality_score p iss r c =
     max 0 (min 1 (1
        - (if p > 50 then 1 / 2 else if p > 20 then 3 / 10 else if p > 5 then 1 / 10 else 0)
        - (1 / 5) * of_nat (length (filter (\<lambda>i. severity i = Critical) iss))
        - (1 / 10) * of_nat (length (filter (\<lambda>i. severity i = Medium) iss))
        + (if r > 1000 then 1 / 20 else 0) + (if c > 5 then 1 / 20 else 0)))"
    by (simp add: calculate_quality_score_def Let_def algebra_simps)
next
  assume h: "wf_df df \<and> total_nan df = 0 \<and> df_len df = 1500 \<and> length (columns df) = 6
    \<and> length (filter (\<lambda>i. severity i = Medium) (overall_issues (assess_data_quality df))) \<le> 1"
  define m where "m = length (filter (\<lambda>i. severity i = Medium) (overall_issues (assess_data_quality df)))"
  have "m \<le> 1" using h by (simp add: m_def)
  then have m: "m = 0 \<or> m = 1" by arith
  have "quality_score (assess_data_quality df) = max 0 (min 1 (1 - of_nat m / 10 + 1 / 20 + 1 / 20))"
    using score_no_nan [of df] h by (simp add: m_def)
  then show "quality_score (assess_data_quality df) = 1"
    using m by auto
qed

theorem quality_score_formula_witness:
  "wf_df one_outlier_df \<and> total_nan one_outlier_df = 0 \<and> df_len one_outlier_df = 1500
   \<and> length (columns one_outlier_df) = 6
   \<and> length (filter (\<lambda>i. severity i = Medium)
        (overall_issues (assess_data_quality one_outlier_df))) = 1
   \<and> quality_score (assess_data_quality one_outlier_df) = 1
   \<and> calculate_quality_score 30 [\<lparr>itype = HighMissing, severity = Critical, amount = 60\<rparr>] 10 2
       = 1 / 2"
proof -
  have a: "df_len one_outlier_df = 1500" "length (columns one_outlier_df) = 6"
    by (simp_all add: one_outlier_df_def df_len_def)
  have b: "length (filter (\<lambda>i. severity i = Medium)
        (overall_issues (assess_data_quality one_outlier_df))) = 1"
    unfolding one_outlier_issues by simp
  show ?thesis
    using quality_score_formula [of 30 "[\<lparr>itype = HighMissing, severity = Critical, amount = 60\<rparr>]"
        10 2 one_outlier_df]
    by (simp add: one_outlier_wf one_outlier_total_nan a b)
qed

section \<open>Cleaning\<close>

lemma fillna_col_no_nan:
  assumes "wf_df df" "total_nan df = 0" "col \<in> set (columns df)"
  shows "fillna_col df col v = df"
proof -
  have "map (\<lambda>r. let i = col_pos (columns df) col in if r ! i = NaN then r[i := v] else r) (rows df)
      = rows df"
    by (rule map_idI) (simp add: Let_def cell_not_nan [OF assms])
  then show ?thesis by (simp add: fillna_col_def)
qed

lemma dropna_subset_no_nan:
  assumes "wf_df df" "total_nan df = 0" "col \<in> set (columns df)"
  shows "dropna_subset df col = df"
proof -
  have "filter (\<lambda>r. r ! col_pos (columns df) col \<noteq> NaN) (rows df) = rows df"
    using cell_not_nan [OF assms] by (simp add: filter_id_conv)
  then show ?thesis by (simp add: dropna_subset_def)
qed

lemma apply_column_strategy_no_nan:
  assumes "wf_df df" "total_nan df = 0" "col \<in> set (columns df)"
  shows "apply_column_strategy a st col df = df"
  by (simp add: apply_column_strategy_def Let_def fillna_col_no_nan [OF assms]
      dropna_subset_no_nan [OF assms] split: option.splits)

lemma column_loop_no_nan:
  assumes "wf_df df" "total_nan df = 0" "set cs \<subseteq> set (columns df)"
  shows "fold (apply_column_strategy a st) cs df = df"
  using assms(3)
proof (induction cs)
  case Nil
  then show ?case by simp
next
  case (Cons c cs)
  then show ?case
    by (simp add: apply_column_strategy_no_nan [OF assms(1) assms(2)])
qed

lemma columns_apply_column_strategy: "columns (apply_column_strategy a st col df) = columns df"
  by (simp add: apply_column_strategy_def Let_def fillna_col_def dropna_subset_def
      split: option.splits)

lemma columns_column_loop: "columns (fold (apply_column_strategy a st) cs df) = columns df"
  by (induction cs arbitrary: df) (simp_all add: columns_apply_column_strategy)

lemma clean_nonempty:
  "\<not> df_empty df \<Longrightarrow>
   clean_data_with_strategy rd df s =
     Inr (drop_duplicates (fold (apply_column_strategy (analyze_nan_values rd df)
            (case s of None \<Rightarrow> map_of (get_default_nan_strategy df (analyze_nan_values rd df))
                     | Some st \<Rightarrow> st))
          (columns df) df))"
  by (simp add: clean_data_with_strategy_def validate_dataframe_def Let_def)

lemma clean_empty:
  "df_empty df \<Longrightarrow> clean_data_with_strategy rd df s = Inl (DataProcessingError EmptyDataError)"
  by (simp add: clean_data_with_strategy_def validate_dataframe_def)

text \<open>
  C5, as stated, fails on the empty table: it holds no missing cell, and cleaning it
  raises instead of returning a table.
\<close>

theorem clean_empty_table_counterexample:
  "total_nan empty_df = 0
   \<and> (\<forall>rd. clean_data_with_strategy rd empty_df None
          = Inl (DataProcessingError EmptyDataError))"
  by (simp add: clean_empty df_empty_def empty_df_def total_nan_def)

text \<open>
  C5, amended. On a table that is not empty and holds no missing cell, cleaning under any
  strategy (also the default one) returns the table with its fully duplicate rows
  removed and nothing else changed: the per-column steps change no cell and drop no
  row, and the result holds each row of the table once.
\<close>

theorem clean_without_missing_cells:
  assumes "wf_df df" "\<not> df_empty df" "total_nan df = 0"
  shows "clean_data_with_strategy rd df nan_strategy = Inr (drop_duplicates df)
    \<and> fold (apply_column_strategy a st) (columns df) df = df
    \<and> set (rows (drop_duplicates df)) = set (rows df)
    \<and> distinct (rows (drop_duplicates df))"
proof -
  have loop: "fold (apply_column_strategy a' st') (columns df) df = df" for a' st'
    by (rule column_loop_no_nan [OF assms(1) assms(3)]) simp
  show ?thesis
    by (simp add: clean_nonempty [OF assms(2)] loop drop_duplicates_def)
qed

theorem clean_without_missing_cells_witness:
  "clean_data_with_strategy decimal_round dup_df
     (Some [''Region'' \<mapsto> \<lparr>meth = Some ''drop'', fill_value = None\<rparr>,
            ''Sales'' \<mapsto> \<lparr>meth = Some ''fill'', fill_value = Some (Num 0)\<rparr>])
   = Inr \<lparr>columns = [''Region'', ''Sales''],
          rows = [[Txt ''North'', Num 10], [Txt ''South'', Num 20]]\<rparr>"
proof -
  have h: "wf_df dup_df" "\<not> df_empty dup_df" "total_nan dup_df = 0"
    by (simp_all add: wf_df_def df_empty_def total_nan_def isnull_sum_def dup_df_def)
  show ?thesis
    using clean_without_missing_cells [OF h]
    by (simp add: drop_duplicates_def dup_df_def)
qed

text \<open>
  C10. An entry whose method is none of \<open>fill\<close>, \<open>drop\<close> and \<open>keep\<close> makes the step of
  its column the identity: no cell is filled, no row dropped, no error raised, and the
  whole cleaning gives what it gives without the entry. The strategy panel emits such an
  entry, with the method \<open>auto\<close>, for a column left on the default choice.
\<close>

theorem unknown_method_changes_nothing:
  assumes "nan_strategy col = Some e" "meth e = Some m"
    "m \<noteq> ''fill''" "m \<noteq> ''drop''" "m \<noteq> ''keep''"
  shows "apply_column_strategy a nan_strategy col df = df
    \<and> clean_data_with_strategy rd df (Some nan_strategy) =
        clean_data_with_strategy rd df (Some (nan_strategy(col := None)))
    \<and> (strategy_var w = ''auto'' \<longrightarrow>
         strategy_of_widget py_float a' col w = Some \<lparr>meth = Some ''auto'', fill_value = None\<rparr>)"
proof -
  have step: "apply_column_strategy b nan_strategy col d = d" for b d
    using assms by (simp add: apply_column_strategy_def)
  have "apply_column_strategy b nan_strategy c d
      = apply_column_strategy b (nan_strategy(col := None)) c d" for b c d
    using step [of b d] by (cases "c = col") (simp_all add: apply_column_strategy_def)
  then have same: "apply_column_strategy b nan_strategy
      = apply_column_strategy b (nan_strategy(col := None))" for b
    by (intro ext)
  have clean: "clean_data_with_strategy rd df (Some nan_strategy) =
      clean_data_with_strategy rd df (Some (nan_strategy(col := None)))"
    by (cases "validate_dataframe df") (simp_all add: clean_data_with_strategy_def Let_def same)
  have auto: "strategy_var w = ''auto'' \<longrightarrow>
      strategy_of_widget py_float a' col w = Some \<lparr>meth = Some ''auto'', fill_value = None\<rparr>"
    by (simp add: strategy_of_widget_def)
  show ?thesis
    using step [of a df] clean auto by blast
qed

theorem unknown_method_changes_nothing_witness:
  "clean_data_with_strategy decimal_round nan_df
     (Some [''Region'' \<mapsto> \<lparr>meth = Some ''auto'', fill_value = None\<rparr>])
   = Inr nan_df
   \<and> strategy_of_widget (\<lambda>s. None) None ''Region''
       \<lparr>strategy_var = ''auto'', fill_var = ''unknown'', custom_var = ''Unknown''\<rparr>
     = Some \<lparr>meth = Some ''auto'', fill_value = None\<rparr>"
proof -
  have rest: "clean_data_with_strategy decimal_round nan_df (Some Map.empty) = Inr nan_df"
    by (simp add: clean_data_with_strategy_def validate_dataframe_def df_empty_def
        nan_df_def apply_column_strategy_def drop_duplicates_def)
  show ?thesis
    using unknown_method_changes_nothing
      [where nan_strategy = "[''Region'' \<mapsto> \<lparr>meth = Some ''auto'', fill_value = None\<rparr>]"
         and col = "''Region''" and e = "\<lparr>meth = Some ''auto'', fill_value = None\<rparr>"
         and m = "''auto''" and df = nan_df and rd = decimal_round and py_float = "\<lambda>s. None" and a' = None
         and w = "\<lparr>strategy_var = ''auto'', fill_var = ''unknown'', custom_var = ''Unknown''\<rparr>"]
    by (simp add: rest)
qed

section \<open>Aggregation\<close>

lemma length_series: "length (series df col) = length (rows df)"
  by (simp add: series_def)

lemma length_prepare_category: "length (prepare_category xs) = length xs"
  by (simp add: prepare_category_def fillna_def)

lemma length_prepare_measure: "length (prepare_measure p operation ys) = length ys"
  by (simp add: prepare_measure_def Let_def fillna_def to_numeric_def)

lemma prepare_category_no_nan: "NaN \<notin> set (prepare_category xs)"
  by (auto simp: prepare_category_def fillna_def isnull_sum_def filter_empty_conv)

lemma keys_groupby:
  "map fst (map (\<lambda>g. (fst g, aggregate operation (snd g))) (groupby pairs))
     = sort_key cell_key (remdups (filter (\<lambda>k. k \<noteq> NaN) (map fst pairs)))"
  by (simp add: groupby_def comp_def)

lemma keys_grouped_values:
  "map fst (grouped_values p df x_col y_col operation)
     = sort_key cell_key (remdups (prepare_category (series df x_col)))"
proof -
  let ?xs = "prepare_category (series df x_col)"
  let ?ys = "prepare_measure p operation (series df y_col)"
  have len: "length ?xs = length ?ys"
    by (simp add: length_prepare_category length_prepare_measure length_series)
  have f: "filter (\<lambda>k. k \<noteq> NaN) ?xs = ?xs"
    using prepare_category_no_nan [of "series df x_col"] by (simp add: filter_id_conv) metis
  have "map fst (grouped_values p df x_col y_col operation)
      = sort_key cell_key (remdups (filter (\<lambda>k. k \<noteq> NaN) (map fst (zip ?xs ?ys))))"
    unfolding grouped_values_def Let_def by (rule keys_groupby)
  also have "map fst (zip ?xs ?ys) = ?xs"
    using len by (rule map_fst_zip)
  finally show ?thesis by (simp only: f)
qed

lemma set_keys_grouped_values:
  "fst ` set (grouped_values p df x_col y_col operation)
     = set (prepare_category (series df x_col))"
proof -
  have "fst ` set (grouped_values p df x_col y_col operation)
      = set (map fst (grouped_values p df x_col y_col operation))"
    by (simp only: set_map)
  then show ?thesis by (simp add: keys_grouped_values)
qed

lemma distinct_keys_grouped_values:
  "distinct (map fst (grouped_values p df x_col y_col operation))"
  by (simp add: keys_grouped_values)

lemma cell_key_inj: "cell_key c = cell_key d \<Longrightarrow> c = d"
  by (cases c; cases d) simp_all

lemma strict_sorted_keys:
  "sorted_wrt (\<lambda>c d. cell_key c < cell_key d) (sort_key cell_key (remdups ks))"
proof -
  have "distinct (map cell_key (sort_key cell_key (remdups ks)))"
    by (simp add: distinct_map inj_on_def) (metis cell_key_inj)
  moreover have "sorted (map cell_key (sort_key cell_key (remdups ks)))"
    by (rule sorted_sort_key)
  ultimately have "sorted_wrt (<) (map cell_key (sort_key cell_key (remdups ks)))"
    by (simp add: strict_sorted_iff)
  then show ?thesis by (simp add: sorted_wrt_map)
qed

lemma grouped_values_in_key_order:
  "sorted_wrt (\<lambda>g h. cell_key (fst g) < cell_key (fst h))
     (grouped_values p df x_col y_col operation)"
proof -
  have "sorted_wrt (\<lambda>c d. cell_key c < cell_key d)
      (map fst (grouped_values p df x_col y_col operation))"
    unfolding keys_grouped_values by (rule strict_sorted_keys)
  then show ?thesis by (simp add: sorted_wrt_map)
qed

lemma analyze_unfold:
  assumes "x_col \<in> set (columns df)" "y_col \<in> set (columns df)" "x_col \<noteq> y_col"
  shows "analyze_data_flexible p srt df x_col y_col operation =
     (if srt (grouped_values p df x_col y_col operation) = []
      then Inl (DataProcessingError EmptyDataError)
      else Inr (srt (grouped_values p df x_col y_col operation)))"
  using assms by (simp add: analyze_data_flexible_def validate_column_selection_def Let_def)

subsection \<open>What follows from the contract of the sort\<close>

lemma contract_set: "sort_values_contract srt \<Longrightarrow> set (srt rs) = set rs"
  by (simp add: sort_values_contract_def)

lemma contract_length: "sort_values_contract srt \<Longrightarrow> length (srt rs) = length rs"
  by (simp add: sort_values_contract_def)

lemma contract_sorted:
  "sort_values_contract srt \<Longrightarrow> sorted_wrt (\<lambda>g h. ordered_desc (snd g) (snd h)) (srt rs)"
  by (simp add: sort_values_contract_def)

lemma contract_empty: "sort_values_contract srt \<Longrightarrow> srt rs = [] \<longleftrightarrow> rs = []"
  using contract_length [of srt rs] by (metis length_0_conv)

lemma contract_single:
  assumes "sort_values_contract srt"
  shows "srt [x] = [x]"
proof -
  have "length (srt [x]) = 1"
    using contract_length [OF assms, of "[x]"] by simp
  then obtain y where y: "srt [x] = [y]"
    by (cases "srt [x]") auto
  have "set (srt [x]) = {x}"
    using contract_set [OF assms, of "[x]"] by simp
  then show ?thesis using y by simp
qed

lemma contract_distinct_keys:
  assumes "sort_values_contract srt" "distinct (map fst rs)"
  shows "distinct (map fst (srt rs))"
proof -
  have "card (set (map fst (srt rs))) = card (set (map fst rs))"
    by (simp add: contract_set [OF assms(1)])
  also have "\<dots> = length (map fst rs)"
    using assms(2) by (rule distinct_card)
  also have "\<dots> = length (map fst (srt rs))"
    by (simp add: contract_length [OF assms(1)])
  finally show ?thesis by (rule card_distinct)
qed

lemma analyze_single:
  assumes "sort_values_contract srt"
    and "x_col \<in> set (columns df)" "y_col \<in> set (columns df)" "x_col \<noteq> y_col"
    and "grouped_values p df x_col y_col operation = [g]"
  shows "analyze_data_flexible p srt df x_col y_col operation = Inr [g]"
  by (simp add: analyze_unfold [OF assms(2-4)] assms(5) contract_single [OF assms(1)])

subsection \<open>The stable sort of the examples meets the contract\<close>

lemma sorted_wrt_weaken:
  "sorted_wrt P xs \<Longrightarrow> (\<And>x y. x \<in> set xs \<Longrightarrow> y \<in> set xs \<Longrightarrow> P x y \<Longrightarrow> Q x y) \<Longrightarrow> sorted_wrt Q xs"
  by (induction xs) auto

lemma stable_sort_desc_order:
  "sorted_wrt (\<lambda>g h. ordered_desc (snd g) (snd h)) (stable_sort_desc rs)"
proof -
  let ?f = "\<lambda>r :: cell \<times> rat option. - the (snd r)"
  let ?some = "filter (\<lambda>r. snd r \<noteq> None) rs"
  have "sorted (map ?f (sort_key ?f ?some))"
    by (rule sorted_sort_key)
  then have le: "sorted_wrt (\<lambda>g h. ?f g \<le> ?f h) (sort_key ?f ?some)"
    by (simp add: sorted_wrt_map)
  have first: "sorted_wrt (\<lambda>g h. ordered_desc (snd g) (snd h)) (sort_key ?f ?some)"
  proof (rule sorted_wrt_weaken [OF le])
    fix x y :: "cell \<times> rat option"
    assume "x \<in> set (sort_key ?f ?some)" "y \<in> set (sort_key ?f ?some)" "?f x \<le> ?f y"
    then show "ordered_desc (snd x) (snd y)"
      by (cases "snd x"; cases "snd y") (simp_all add: ordered_desc_def)
  qed
  have second: "sorted_wrt (\<lambda>g h. ordered_desc (snd g) (snd h)) (filter (\<lambda>r. snd r = None) rs)"
    by (induction rs) (simp_all add: ordered_desc_def)
  have cross: "\<forall>x \<in> set (sort_key ?f ?some). \<forall>y \<in> set (filter (\<lambda>r. snd r = None) rs).
      ordered_desc (snd x) (snd y)"
    by (simp add: ordered_desc_def)
  show ?thesis
    unfolding stable_sort_desc_def sorted_wrt_append
    using first second cross by blast
qed

lemma stable_sort_desc_contract: "sort_values_contract stable_sort_desc"
proof -
  have "set (stable_sort_desc rs) = set rs" for rs
    by (auto simp: stable_sort_desc_def)
  moreover have "length (stable_sort_desc rs) = length rs" for rs
    using sum_length_filter_compl [of "\<lambda>r. snd r \<noteq> None" rs]
    by (simp add: stable_sort_desc_def)
  ultimately show ?thesis
    by (simp add: sort_values_contract_def stable_sort_desc_order)
qed

subsection \<open>Missing and unparseable measure cells\<close>

text \<open>
  C1. On the measure values 10, missing, 20 the mean is 15 and the sum 30. A text column
  without a missing cell takes the other path: its unparseable cell is filled with 0
  whatever the operation, and the mean of 10, abc, 20 is 10; with one missing cell
  added to the same column the unparseable cell is left out and the mean is 15. This
  holds whatever sort meets the contract of \<open>sort_values\<close>.
\<close>

theorem mean_of_text_measure:
  assumes "sort_values_contract sort_values"
  shows "analyze_data_flexible parse_decimal sort_values scenario_df ''Region'' ''Sales'' ''mean''
     = Inr [(Txt ''A'', Some 15)]
   \<and> analyze_data_flexible parse_decimal sort_values scenario_df ''Region'' ''Sales'' ''sum''
     = Inr [(Txt ''A'', Some 30)]
   \<and> analyze_data_flexible parse_decimal sort_values text_measure_df ''Region'' ''Sales'' ''mean''
     = Inr [(Txt ''A'', Some 10)]
   \<and> analyze_data_flexible parse_decimal sort_values text_measure_nan_df ''Region'' ''Sales''
       ''mean''
     = Inr [(Txt ''A'', Some 15)]"
proof -
  have g1: "grouped_values parse_decimal scenario_df ''Region'' ''Sales'' ''mean''
      = [(Txt ''A'', Some 15)]"
    by code_simp
  have g2: "grouped_values parse_decimal scenario_df ''Region'' ''Sales'' ''sum''
      = [(Txt ''A'', Some 30)]"
    by code_simp
  have g3: "grouped_values parse_decimal text_measure_df ''Region'' ''Sales'' ''mean''
      = [(Txt ''A'', Some 10)]"
    by code_simp
  have g4: "grouped_values parse_decimal text_measure_nan_df ''Region'' ''Sales'' ''mean''
      = [(Txt ''A'', Some 15)]"
    by code_simp
  have c: "''Region'' \<in> set (columns scenario_df)" "''Sales'' \<in> set (columns scenario_df)"
    "''Region'' \<in> set (columns text_measure_df)" "''Sales'' \<in> set (columns text_measure_df)"
    "''Region'' \<in> set (columns text_measure_nan_df)"
    "''Sales'' \<in> set (columns text_measure_nan_df)"
    by (simp_all add: scenario_df_def text_measure_df_def text_measure_nan_df_def)
  have n: "''Region'' \<noteq> ''Sales''"
    by simp
  show ?thesis
    using analyze_single [OF assms c(1) c(2) n g1] analyze_single [OF assms c(1) c(2) n g2]
      analyze_single [OF assms c(3) c(4) n g3] analyze_single [OF assms c(5) c(6) n g4]
    by blast
qed

theorem mean_of_text_measure_witness:
  "sort_values_contract stable_sort_desc
   \<and> analyze_data_flexible parse_decimal stable_sort_desc scenario_df ''Region'' ''Sales'' ''mean''
     = Inr [(Txt ''A'', Some 15)]
   \<and> analyze_data_flexible parse_decimal stable_sort_desc scenario_df ''Region'' ''Sales'' ''sum''
     = Inr [(Txt ''A'', Some 30)]
   \<and> analyze_data_flexible parse_decimal stable_sort_desc text_measure_df ''Region'' ''Sales''
       ''mean''
     = Inr [(Txt ''A'', Some 10)]
   \<and> analyze_data_flexible parse_decimal stable_sort_desc text_measure_nan_df ''Region''
       ''Sales'' ''mean''
     = Inr [(Txt ''A'', Some 15)]"
  using mean_of_text_measure [OF stable_sort_desc_contract] stable_sort_desc_contract
  by blast

subsection \<open>The empty result\<close>

text \<open>
  C6, as stated, fails in the kind of the error: on a table without rows the aggregation
  raises \<open>EmptyDataError\<close> inside its \<open>try\<close> block, and what leaves the function is the
  \<open>DataProcessingError\<close> raised from it, which is no \<open>EmptyDataError\<close>. Whatever the
  sort, \<open>EmptyDataError\<close> itself never leaves the function.
\<close>

theorem aggregate_no_rows_counterexample:
  "analyze_data_flexible parse_decimal stable_sort_desc no_rows_df ''Region'' ''Sales'' ''sum''
     = Inl (DataProcessingError EmptyDataError)
   \<and> (\<forall>srt. analyze_data_flexible parse_decimal srt no_rows_df ''Region'' ''Sales'' ''sum''
          \<noteq> Inl EmptyDataError)"
proof -
  have "analyze_data_flexible parse_decimal stable_sort_desc no_rows_df ''Region'' ''Sales''
      ''sum'' = Inl (DataProcessingError EmptyDataError)"
    by code_simp
  moreover have "analyze_data_flexible parse_decimal srt no_rows_df ''Region'' ''Sales'' ''sum''
      \<noteq> Inl EmptyDataError" for srt
    by (simp add: analyze_data_flexible_def Let_def split: sum.splits)
  ultimately show ?thesis by blast
qed

text \<open>
  C6, amended. For two distinct columns of the table and a sort that meets the contract
  of \<open>sort_values\<close>, the aggregation fails with the \<open>DataProcessingError\<close> raised from
  the empty-result error exactly when the table has no row; it never returns an empty
  result. On a table with rows it returns exactly one row for each distinct value of
  the category column after the filling with \<open>Unknown\<close>: the categories of the result
  are those values, no category stands in two rows, and the number of rows is the number
  of distinct values. So every row of the table belongs to a group.
\<close>

theorem aggregate_empty_iff_no_rows:
  assumes "sort_values_contract srt"
    and "x_col \<in> set (columns df)" "y_col \<in> set (columns df)" "x_col \<noteq> y_col"
  shows "(analyze_data_flexible p srt df x_col y_col operation
            = Inl (DataProcessingError EmptyDataError) \<longleftrightarrow> rows df = [])
    \<and> analyze_data_flexible p srt df x_col y_col operation \<noteq> Inr []
    \<and> (rows df \<noteq> [] \<longrightarrow>
         (\<exists>r. analyze_data_flexible p srt df x_col y_col operation = Inr r \<and> r \<noteq> []
              \<and> fst ` set r = set (prepare_category (series df x_col))
              \<and> distinct (map fst r)
              \<and> length r = card (set (prepare_category (series df x_col)))))"
proof -
  define result where "result = srt (grouped_values p df x_col y_col operation)"
  have keys: "fst ` set result = set (prepare_category (series df x_col))"
    unfolding result_def
    by (simp add: contract_set [OF assms(1)] set_keys_grouped_values)
  have dist: "distinct (map fst result)"
    unfolding result_def
    by (rule contract_distinct_keys [OF assms(1) distinct_keys_grouped_values])
  have "card (fst ` set result) = length result"
    using distinct_card [OF dist] by simp
  then have len: "length result = card (set (prepare_category (series df x_col)))"
    by (simp only: keys)
  have "result = [] \<longleftrightarrow> prepare_category (series df x_col) = []"
    using keys by (metis image_is_empty set_empty)
  then have empty: "result = [] \<longleftrightarrow> rows df = []"
    using length_prepare_category [of "series df x_col"] length_series [of df x_col]
    by (metis length_0_conv)
  have a: "analyze_data_flexible p srt df x_col y_col operation =
      (if result = [] then Inl (DataProcessingError EmptyDataError) else Inr result)"
    unfolding analyze_unfold [OF assms(2-4)] result_def by (rule refl)
  show ?thesis
    using empty keys dist len by (auto simp: a)
qed

theorem aggregate_empty_iff_no_rows_witness:
  "sort_values_contract stable_sort_desc
   \<and> analyze_data_flexible parse_decimal stable_sort_desc nan_df ''Region'' ''Sales'' ''count''
     \<noteq> Inl (DataProcessingError EmptyDataError)
   \<and> (\<exists>r. analyze_data_flexible parse_decimal stable_sort_desc nan_df ''Region'' ''Sales''
            ''count'' = Inr r
          \<and> r \<noteq> [] \<and> fst ` set r = {Txt ''North'', Txt ''Unknown'', Txt ''South''}
          \<and> distinct (map fst r) \<and> length r = 3)"
proof -
  have h: "''Region'' \<in> set (columns nan_df)" "''Sales'' \<in> set (columns nan_df)"
    "''Region'' \<noteq> ''Sales''" "rows nan_df \<noteq> []"
    by (simp_all add: nan_df_def)
  have s: "set (prepare_category (series nan_df ''Region''))
      = {Txt ''North'', Txt ''Unknown'', Txt ''South''}"
    by (simp add: prepare_category_def series_def nan_df_def col_pos_def isnull_sum_def fillna_def)
  have c: "card {Txt ''North'', Txt ''Unknown'', Txt ''South''} = 3"
    by simp
  show ?thesis
    using aggregate_empty_iff_no_rows [OF stable_sort_desc_contract h(1) h(2) h(3),
        of parse_decimal "''count''"] h(4) stable_sort_desc_contract
    by (simp add: s c)
qed

subsection \<open>The order of the result\<close>

text \<open>
  C9, as stated, fails: rows with equal aggregated values do not keep the order in which
  their categories are first met in the table. \<open>groupby\<close> puts the groups in the order
  of their keys before the sort by value. The two tables \<open>tie_df\<close> and \<open>rev_tie_df\<close>
  hold the same two rows in opposite orders; both give the group table \<open>a\<close>, \<open>b\<close>
  with equal sums, and so the same result whatever the sort does, while the order of
  first occurrence is \<open>b\<close>, \<open>a\<close> in the one and \<open>a\<close>, \<open>b\<close> in the other: for one of
  the two tables the result is not in the order the claim states.
\<close>

theorem tie_order_counterexample:
  "(\<forall>srt. analyze_data_flexible parse_decimal srt tie_df ''Region'' ''Sales'' ''sum''
         = analyze_data_flexible parse_decimal srt rev_tie_df ''Region'' ''Sales'' ''sum'')
   \<and> grouped_values parse_decimal tie_df ''Region'' ''Sales'' ''sum''
     = [(Txt ''a'', Some 1), (Txt ''b'', Some 1)]
   \<and> grouped_values parse_decimal rev_tie_df ''Region'' ''Sales'' ''sum''
     = [(Txt ''a'', Some 1), (Txt ''b'', Some 1)]
   \<and> spec_sorted_result ''sum'' (zip (series tie_df ''Region'') (series tie_df ''Sales''))
     = [(Txt ''b'', Some 1), (Txt ''a'', Some 1)]
   \<and> spec_sorted_result ''sum'' (zip (series rev_tie_df ''Region'') (series rev_tie_df ''Sales''))
     = [(Txt ''a'', Some 1), (Txt ''b'', Some 1)]"
proof -
  have g1: "grouped_values parse_decimal tie_df ''Region'' ''Sales'' ''sum''
      = [(Txt ''a'', Some 1), (Txt ''b'', Some 1)]"
    by code_simp
  have g2: "grouped_values parse_decimal rev_tie_df ''Region'' ''Sales'' ''sum''
      = [(Txt ''a'', Some 1), (Txt ''b'', Some 1)]"
    by code_simp
  have c: "''Region'' \<in> set (columns tie_df)" "''Sales'' \<in> set (columns tie_df)"
    "''Region'' \<in> set (columns rev_tie_df)" "''Sales'' \<in> set (columns rev_tie_df)"
    "''Region'' \<noteq> ''Sales''"
    by (simp_all add: tie_df_def rev_tie_df_def)
  have same: "analyze_data_flexible parse_decimal srt tie_df ''Region'' ''Sales'' ''sum''
      = analyze_data_flexible parse_decimal srt rev_tie_df ''Region'' ''Sales'' ''sum''" for srt
    by (simp only: analyze_unfold [OF c(1) c(2) c(5)] analyze_unfold [OF c(3) c(4) c(5)] g1 g2)
  have s1: "spec_sorted_result ''sum'' (zip (series tie_df ''Region'') (series tie_df ''Sales''))
      = [(Txt ''b'', Some 1), (Txt ''a'', Some 1)]"
    by code_simp
  have s2: "spec_sorted_result ''sum''
      (zip (series rev_tie_df ''Region'') (series rev_tie_df ''Sales''))
      = [(Txt ''a'', Some 1), (Txt ''b'', Some 1)]"
    by code_simp
  show ?thesis
    using same g1 g2 s1 s2 by blast
qed

text \<open>
  C9, amended. The rows of a successful aggregation are ordered by the aggregated value,
  largest first, a row with a missing value after every row with a value. The order of
  rows with equal values is not that of first occurrence: the result is what
  \<open>sort_values\<close>, an unstable sort, makes of the groups listed in the ascending order
  of their categories, whatever the order of the rows in the table.
\<close>

theorem result_sorted_descending:
  assumes "sort_values_contract srt"
    and "analyze_data_flexible p srt df x_col y_col operation = Inr r"
  shows "sorted_wrt (\<lambda>g h. ordered_desc (snd g) (snd h)) r
    \<and> r = srt (grouped_values p df x_col y_col operation)
    \<and> sorted_wrt (\<lambda>g h. cell_key (fst g) < cell_key (fst h))
        (grouped_values p df x_col y_col operation)"
proof -
  have r: "r = srt (grouped_values p df x_col y_col operation)"
    using assms(2)
    by (auto simp: analyze_data_flexible_def Let_def split: sum.splits if_splits)
  show ?thesis
    using contract_sorted [OF assms(1), of "grouped_values p df x_col y_col operation"]
      grouped_values_in_key_order [of p df x_col y_col operation] r
    by simp
qed

theorem result_sorted_descending_witness:
  "sort_values_contract stable_sort_desc
   \<and> analyze_data_flexible parse_decimal stable_sort_desc tie_df ''Region'' ''Sales'' ''sum''
     = Inr [(Txt ''a'', Some 1), (Txt ''b'', Some 1)]
   \<and> sorted_wrt (\<lambda>g h. ordered_desc (snd g) (snd h))
       [(Txt ''a'', Some 1), (Txt ''b'', Some (1::rat))]
   \<and> [(Txt ''a'', Some 1), (Txt ''b'', Some 1)]
     = stable_sort_desc (grouped_values parse_decimal tie_df ''Region'' ''Sales'' ''sum'')"
proof -
  have a: "analyze_data_flexible parse_decimal stable_sort_desc tie_df ''Region'' ''Sales'' ''sum''
     = Inr [(Txt ''a'', Some 1), (Txt ''b'', Some 1)]"
    by code_simp
  show ?thesis
    using result_sorted_descending [OF stable_sort_desc_contract a] a stable_sort_desc_contract
    by blast
qed

section \<open>The default strategy\<close>

lemma map_of_tabulate:
  "map_of (map (\<lambda>k. (k, f k)) ks) k = (if k \<in> set ks then Some (f k) else None)"
  by (induction ks) auto

lemma dropna_nonempty: "\<not> is_numeric_dtype s \<Longrightarrow> dropna s \<noteq> []"
proof -
  assume "\<not> is_numeric_dtype s"
  then obtain c where c: "c \<in> set s" "is_txt c"
    by (auto simp: is_numeric_dtype_def list_all_iff)
  then have "c \<noteq> NaN" by (auto simp: is_txt_def)
  then show ?thesis using c(1) by (auto simp: dropna_def filter_empty_conv)
qed

lemma recommend_numeric:
  assumes "is_numeric_dtype s"
  shows "\<exists>sg. recommend rd s = NumericRec sg
    \<and> s_median sg = (if nums s = [] then 0 else round_stat rd (median (nums s)))"
  using assms by (simp add: recommend_def Let_def)

lemma recommend_categorical:
  assumes "\<not> is_numeric_dtype s"
  shows "recommend rd s = CategoricalRec (categorical_mode (dropna s))
           (length (remdups (dropna s)))
           (if length (remdups (dropna s)) < 20 then ''mode'' else ''unknown'')"
  using assms dropna_nonempty [OF assms] by (simp add: recommend_def Let_def)

lemma percentage_of_column:
  assumes "rows df \<noteq> []"
  shows "percentage (column_nan_info rd df (series df col))
    = round_pct rd (missing_pct (series df col))"
  using assms by (simp add: column_nan_info_def missing_pct_def df_len_def series_def)

lemma analysis_of_table:
  assumes "df_size df \<noteq> 0"
  shows "map_of (get_columns_with_nan (analyze_nan_values rd df)) col
           = (if col \<in> set (columns df) \<and> isnull_sum (series df col) > 0
              then Some (column_nan_info rd df (series df col)) else None)"
    and "map_of (get_recommendations (analyze_nan_values rd df)) col
           = (if col \<in> set (columns df) \<and> isnull_sum (series df col) > 0
              then Some (recommend rd (series df col)) else None)"
  using assms
  by (simp_all add: analyze_nan_values_def analyze_nan_values_try_def Let_def
      get_columns_with_nan_def get_recommendations_def map_of_tabulate)

lemma default_entry_keep:
  assumes "isnull_sum (series df col) = 0"
  shows "default_entry (analyze_nan_values rd df) col
    = \<lparr>meth = Some ''keep'', fill_value = None\<rparr>"
proof (cases "df_size df = 0")
  case True
  then show ?thesis
    by (simp add: default_entry_def analyze_nan_values_def analyze_nan_values_try_def Let_def
        get_columns_with_nan_def)
next
  case False
  then show ?thesis
    using assms by (simp add: default_entry_def analysis_of_table)
qed

lemma default_entry_missing:
  assumes "col \<in> set (columns df)" "isnull_sum (series df col) > 0"
  shows "default_entry (analyze_nan_values rd df) col =
     (let s = series df col; pct = round_pct rd (missing_pct s) in
      if pct > 50 then \<lparr>meth = Some ''fill'', fill_value = Some (Txt ''N/A'')\<rparr>
      else if is_numeric_dtype s then
        \<lparr>meth = Some ''fill'',
         fill_value = Some (Num (if nums s = [] then 0 else round_stat rd (median (nums s))))\<rparr>
      else if pct > 20 then \<lparr>meth = Some ''fill'', fill_value = Some (Txt ''Unknown'')\<rparr>
      else \<lparr>meth = Some ''fill'', fill_value = Some (categorical_mode (dropna s))\<rparr>)"
proof -
  let ?s = "series df col"
  have ne: "?s \<noteq> []"
    using assms(2) by (auto simp: isnull_sum_def)
  then have rows: "rows df \<noteq> []"
    by (simp add: series_def)
  then have size: "df_size df \<noteq> 0"
    using assms(1) by (auto simp: df_size_def)
  have info: "map_of (get_columns_with_nan (analyze_nan_values rd df)) col
      = Some (column_nan_info rd df ?s)"
    using assms by (simp add: analysis_of_table(1) [OF size])
  have rec: "map_of (get_recommendations (analyze_nan_values rd df)) col
      = Some (recommend rd ?s)"
    using assms by (simp add: analysis_of_table(2) [OF size])
  have pct: "percentage (column_nan_info rd df ?s) = round_pct rd (missing_pct ?s)"
    using rows by (rule percentage_of_column)
  show ?thesis
  proof (cases "is_numeric_dtype ?s")
    case True
    obtain sg where sg: "recommend rd ?s = NumericRec sg"
      "s_median sg = (if nums ?s = [] then 0 else round_stat rd (median (nums ?s)))"
      using recommend_numeric [OF True] by blast
    show ?thesis
      using True by (simp add: default_entry_def info rec pct Let_def sg)
  next
    case False
    then show ?thesis
      by (simp add: default_entry_def info rec pct Let_def recommend_categorical [OF False])
  qed
qed

text \<open>
  C2, as stated, fails: a categorical column with more than 20% and at most 50% missing
  cells is filled with the text \<open>Unknown\<close>, although its mode is available. In
  \<open>region_df\<close> the column \<open>Region\<close> has 30% missing cells and the mode \<open>A\<close>.
\<close>

theorem default_strategy_categorical_counterexample:
  "map_of (get_default_nan_strategy region_df (analyze_nan_values decimal_round region_df))
     ''Region''
     = Some \<lparr>meth = Some ''fill'', fill_value = Some (Txt ''Unknown'')\<rparr>
   \<and> spec_default_entry (series region_df ''Region'')
     = \<lparr>meth = Some ''fill'', fill_value = Some (Txt ''A'')\<rparr>"
  by code_simp

text \<open>
  C2, amended. The default strategy assigns to every column of the table: \<open>keep\<close> when
  the column has no missing cell; else \<open>fill\<close> with \<open>N/A\<close> when its missing percentage,
  as \<open>round\<close> gives it to two decimals, is above 50; else \<open>fill\<close> with the median of its
  values, as \<open>round\<close> gives it to two decimals (0 for a column without a value), when the
  column is numeric; else, the column being categorical, \<open>fill\<close> with the text
  \<open>Unknown\<close> when the rounded percentage is above 20, and with the mode of its values
  when it is at most 20. The mode is the first of the most frequent values in sorted
  order, or in the order of their first occurrence when they are texts and numbers and
  cannot be sorted. This holds whatever \<open>round\<close> returns.
\<close>

theorem default_strategy_entry:
  assumes "col \<in> set (columns df)"
  shows "map_of (get_default_nan_strategy df (analyze_nan_values rd df)) col =
     Some (let s = series df col; pct = round_pct rd (missing_pct s) in
           if isnull_sum s = 0 then \<lparr>meth = Some ''keep'', fill_value = None\<rparr>
           else if pct > 50 then \<lparr>meth = Some ''fill'', fill_value = Some (Txt ''N/A'')\<rparr>
           else if is_numeric_dtype s then
             \<lparr>meth = Some ''fill'',
              fill_value =
                Some (Num (if nums s = [] then 0 else round_stat rd (median (nums s))))\<rparr>
           else if pct > 20 then \<lparr>meth = Some ''fill'', fill_value = Some (Txt ''Unknown'')\<rparr>
           else \<lparr>meth = Some ''fill'', fill_value = Some (categorical_mode (dropna s))\<rparr>)"
proof -
  have e: "map_of (get_default_nan_strategy df (analyze_nan_values rd df)) col
      = Some (default_entry (analyze_nan_values rd df) col)"
    using assms by (simp add: get_default_nan_strategy_def map_of_tabulate)
  show ?thesis
  proof (cases "isnull_sum (series df col) = 0")
    case True
    then show ?thesis
      using e by (simp add: default_entry_keep Let_def)
  next
    case False
    then have "isnull_sum (series df col) > 0" by simp
    then show ?thesis
      using e False by (simp add: default_entry_missing [OF assms] Let_def)
  qed
qed

theorem default_strategy_entry_witness:
  "''Sales'' \<in> set (columns region_df) \<and> ''Code'' \<in> set (columns mixed_df)
   \<and> map_of (get_default_nan_strategy region_df (analyze_nan_values decimal_round region_df))
       ''Sales''
     = Some \<lparr>meth = Some ''fill'', fill_value = Some (Num 5)\<rparr>
   \<and> map_of (get_default_nan_strategy mixed_df (analyze_nan_values decimal_round mixed_df))
       ''Code''
     = Some \<lparr>meth = Some ''fill'', fill_value = Some (Txt ''x'')\<rparr>"
proof -
  have mem: "''Sales'' \<in> set (columns region_df)" "''Code'' \<in> set (columns mixed_df)"
    by (simp_all add: region_df_def mixed_df_def)
  have r1: "(let s = series region_df ''Sales''; pct = round_pct decimal_round (missing_pct s) in
           if isnull_sum s = 0 then \<lparr>meth = Some ''keep'', fill_value = None\<rparr>
           else if pct > 50 then \<lparr>meth = Some ''fill'', fill_value = Some (Txt ''N/A'')\<rparr>
           else if is_numeric_dtype s then
             \<lparr>meth = Some ''fill'',
              fill_value =
                Some (Num (if nums s = [] then 0
                           else round_stat decimal_round (median (nums s))))\<rparr>
           else if pct > 20 then \<lparr>meth = Some ''fill'', fill_value = Some (Txt ''Unknown'')\<rparr>
           else \<lparr>meth = Some ''fill'', fill_value = Some (categorical_mode (dropna s))\<rparr>)
      = \<lparr>meth = Some ''fill'', fill_value = Some (Num 5)\<rparr>"
    by code_simp
  have r2: "(let s = series mixed_df ''Code''; pct = round_pct decimal_round (missing_pct s) in
           if isnull_sum s = 0 then \<lparr>meth = Some ''keep'', fill_value = None\<rparr>
           else if pct > 50 then \<lparr>meth = Some ''fill'', fill_value = Some (Txt ''N/A'')\<rparr>
           else if is_numeric_dtype s then
             \<lparr>meth = Some ''fill'',
              fill_value =
                Some (Num (if nums s = [] then 0
                           else round_stat decimal_round (median (nums s))))\<rparr>
           else if pct > 20 then \<lparr>meth = Some ''fill'', fill_value = Some (Txt ''Unknown'')\<rparr>
           else \<lparr>meth = Some ''fill'', fill_value = Some (categorical_mode (dropna s))\<rparr>)
      = \<lparr>meth = Some ''fill'', fill_value = Some (Txt ''x'')\<rparr>"
    by code_simp
  have w1: "map_of (get_default_nan_strategy region_df (analyze_nan_values decimal_round region_df))
       ''Sales'' = Some \<lparr>meth = Some ''fill'', fill_value = Some (Num 5)\<rparr>"
    by (rule trans [OF default_strategy_entry [OF mem(1)] arg_cong [where f = Some, OF r1]])
  have w2: "map_of (get_default_nan_strategy mixed_df (analyze_nan_values decimal_round mixed_df))
       ''Code'' = Some \<lparr>meth = Some ''fill'', fill_value = Some (Txt ''x'')\<rparr>"
    by (rule trans [OF default_strategy_entry [OF mem(2)] arg_cong [where f = Some, OF r2]])
  show ?thesis
    using mem w1 w2 by blast
qed

section \<open>Errors of the core stages\<close>

text \<open>
  C7, as stated, fails: on a table without cells the NaN analysis divides by zero, the
  \<open>except\<close> clause swallows the \<open>ZeroDivisionError\<close>, and the caller receives the empty
  dictionary as a result.
\<close>

theorem nan_analysis_swallows_error_counterexample:
  "(\<forall>rd. analyze_nan_values_try rd empty_df = Inl ZeroDivisionError)
   \<and> (\<forall>rd. analyze_nan_values rd empty_df = None)"
  by (simp add: analyze_nan_values_def analyze_nan_values_try_def Let_def df_size_def
      empty_df_def)

text \<open>
  C7, amended. The NaN analysis returns a filled-in analysis on every table with at least
  one cell, and on a table without cells it swallows its division by zero and returns the
  empty dictionary. Cleaning raises \<open>DataProcessingError\<close> on an empty table and returns
  a table with the same columns otherwise. Aggregation either raises
  \<open>DataProcessingError\<close> or returns a result with at least one row.
\<close>

theorem core_stage_outcomes:
  "(df_size df \<noteq> 0 \<longrightarrow>
      (\<exists>a. analyze_nan_values rd df = Some a \<and> na_total_rows a = df_len df
           \<and> na_total_cells a = df_size df))
   \<and> (df_size df = 0 \<longrightarrow>
      analyze_nan_values_try rd df = Inl ZeroDivisionError \<and> analyze_nan_values rd df = None)
   \<and> (df_empty df \<longrightarrow>
      clean_data_with_strategy rd df st = Inl (DataProcessingError EmptyDataError))
   \<and> (\<not> df_empty df \<longrightarrow>
      (\<exists>d. clean_data_with_strategy rd df st = Inr d \<and> columns d = columns df))
   \<and> ((\<exists>e. analyze_data_flexible p srt df x_col y_col operation = Inl (DataProcessingError e))
      \<or> (\<exists>r. analyze_data_flexible p srt df x_col y_col operation = Inr r \<and> r \<noteq> []))"
proof -
  have 1: "df_size df \<noteq> 0 \<longrightarrow>
      (\<exists>a. analyze_nan_values rd df = Some a \<and> na_total_rows a = df_len df
           \<and> na_total_cells a = df_size df)"
    by (simp add: analyze_nan_values_def analyze_nan_values_try_def Let_def)
  have 2: "df_size df = 0 \<longrightarrow>
      analyze_nan_values_try rd df = Inl ZeroDivisionError \<and> analyze_nan_values rd df = None"
    by (simp add: analyze_nan_values_def analyze_nan_values_try_def Let_def)
  have 3: "df_empty df \<longrightarrow>
      clean_data_with_strategy rd df st = Inl (DataProcessingError EmptyDataError)"
    by (simp add: clean_empty)
  have 4: "\<not> df_empty df \<longrightarrow>
      (\<exists>d. clean_data_with_strategy rd df st = Inr d \<and> columns d = columns df)"
    by (simp add: clean_nonempty drop_duplicates_def columns_column_loop)
  have 5: "(\<exists>e. analyze_data_flexible p srt df x_col y_col operation = Inl (DataProcessingError e))
      \<or> (\<exists>r. analyze_data_flexible p srt df x_col y_col operation = Inr r \<and> r \<noteq> [])"
    by (cases "validate_column_selection df x_col y_col")
      (simp_all add: analyze_data_flexible_def Let_def)
  show ?thesis
    using 1 2 3 4 5 by blast
qed

theorem core_stage_outcomes_witness:
  "df_size nan_df \<noteq> 0 \<and> \<not> df_empty nan_df \<and> df_size empty_df = 0 \<and> df_empty empty_df
   \<and> (\<exists>a. analyze_nan_values decimal_round nan_df = Some a \<and> na_total_rows a = df_len nan_df
           \<and> na_total_cells a = df_size nan_df)
   \<and> (\<exists>d. clean_data_with_strategy decimal_round nan_df None = Inr d \<and> columns d = columns nan_df)
   \<and> analyze_nan_values decimal_round empty_df = None
   \<and> clean_data_with_strategy decimal_round empty_df None = Inl (DataProcessingError EmptyDataError)"
proof -
  have h: "df_size nan_df \<noteq> 0" "\<not> df_empty nan_df" "df_size empty_df = 0" "df_empty empty_df"
    by (simp_all add: df_size_def df_empty_def nan_df_def empty_df_def)
  show ?thesis
    using core_stage_outcomes [where df = nan_df and rd = decimal_round and st = None
        and p = parse_decimal and srt = stable_sort_desc and x_col = "''Region''"
        and y_col = "''Sales''" and operation = "''sum''"]
      core_stage_outcomes [where df = empty_df and rd = decimal_round and st = None
        and p = parse_decimal and srt = stable_sort_desc and x_col = "''Region''"
        and y_col = "''Sales''" and operation = "''sum''"] h
    by blast
qed

section \<open>The strategy panel\<close>

lemma panel_loop:
  assumes "distinct (map fst ws)" "(col, w) \<in> set ws"
  shows "fold (\<lambda>cw strategy.
             case strategy_of_widget py_float a (fst cw) (snd cw) of
               None \<Rightarrow> strategy
             | Some e \<Rightarrow> strategy(fst cw \<mapsto> e)) ws m col
         = (case strategy_of_widget py_float a col w of None \<Rightarrow> m col | Some e \<Rightarrow> Some e)"
  using assms
proof (induction ws arbitrary: m)
  case Nil
  then show ?case by simp
next
  case (Cons cw ws)
  let ?step = "\<lambda>cw strategy.
             case strategy_of_widget py_float a (fst cw) (snd cw) of
               None \<Rightarrow> strategy
             | Some e \<Rightarrow> strategy(fst cw \<mapsto> e)"
  have other: "fold ?step ws m' col = m' col" if "col \<notin> fst ` set ws" for m'
    using that
  proof (induction ws arbitrary: m')
    case Nil
    then show ?case by simp
  next
    case (Cons x xs)
    then show ?case by (auto split: option.splits)
  qed
  show ?case
  proof (cases "cw = (col, w)")
    case True
    then have "col \<notin> fst ` set ws"
      using Cons.prems(1) by auto
    then show ?thesis
      using True by (simp add: other split: option.splits)
  next
    case False
    then have in_ws: "(col, w) \<in> set ws"
      using Cons.prems(2) by simp
    then have "fst cw \<noteq> col"
      using Cons.prems(1) by (auto simp: image_iff)
    moreover have "distinct (map fst ws)"
      using Cons.prems(1) by simp
    ultimately show ?thesis
      using Cons.IH [OF _ in_ws] by (simp split: option.splits)
  qed
qed

text \<open>
  C8. A column of the panel set to \<open>fill\<close> with a custom text, the column being numeric
  in the analysis, gets the entry with the method \<open>fill\<close> and a value: the number
  \<open>float\<close> reads from the text, and 0 when \<open>float\<close> rejects it.
\<close>

theorem custom_numeric_fill:
  assumes "distinct (map fst ws)" "(col, w) \<in> set ws"
    and "strategy_var w = ''fill''" "fill_var w = ''custom''"
    and "is_numeric_rec (map_of (get_recommendations a) col)"
  shows "get_nan_strategy py_float a ws col =
     Some \<lparr>meth = Some ''fill'',
           fill_value = Some (case py_float (custom_var w) of None \<Rightarrow> Num 0 | Some v \<Rightarrow> v)\<rparr>"
proof -
  have "strategy_of_widget py_float a col w =
     Some \<lparr>meth = Some ''fill'',
           fill_value = Some (case py_float (custom_var w) of None \<Rightarrow> Num 0 | Some v \<Rightarrow> v)\<rparr>"
    using assms(3-5)
    by (simp add: strategy_of_widget_def fill_value_of_def Let_def split: option.splits)
  then show ?thesis
    unfolding get_nan_strategy_def
    by (simp add: panel_loop [OF assms(1) assms(2)])
qed

theorem custom_numeric_fill_witness:
  "get_nan_strategy float_of_digits (analyze_nan_values decimal_round nan_df) custom_panel ''Sales'' =
     Some \<lparr>meth = Some ''fill'', fill_value = Some (Num 0)\<rparr>"
proof -
  let ?w = "\<lparr>strategy_var = ''fill'', fill_var = ''custom'', custom_var = ''abc''\<rparr>"
  have h: "distinct (map fst custom_panel)" "(''Sales'', ?w) \<in> set custom_panel"
    "strategy_var ?w = ''fill''" "fill_var ?w = ''custom''"
    by (simp_all add: custom_panel_def)
  have n: "is_numeric_rec (map_of (get_recommendations (analyze_nan_values decimal_round nan_df)) ''Sales'')"
    by code_simp
  have p: "float_of_digits ''abc'' = None"
    by code_simp
  show ?thesis
    using custom_numeric_fill [OF h n, of float_of_digits] by (simp add: p)
qed

end
